theory Spec2Isabelle
  imports Complex_Main
begin

section \<open>Constants of \<open>predict/views.py\<close>\<close>

definition TOP_PREDICTIONS :: nat where
  "TOP_PREDICTIONS = 5"

definition ITEMS_PER_PAGE :: nat where
  "ITEMS_PER_PAGE = 10"

definition MAX_FILE_SIZE :: int where
  "MAX_FILE_SIZE = 10 * 1024 * 1024"

definition ALLOWED_EXTENSIONS :: "string set" where
  "ALLOWED_EXTENSIONS = {''jpg'', ''jpeg'', ''png'', ''bmp'', ''gif''}"

section \<open>Python string operations used by the views\<close>

text \<open>
  \<open>str.split(sep)\<close> with a one-character separator: the pieces between the separators,
  empty pieces kept, never an empty list.
\<close>

fun py_split :: "char \<Rightarrow> string \<Rightarrow> string list" where
  "py_split sep [] = [[]]"
| "py_split sep (c # cs) =
     (if c = sep then [] # py_split sep cs
      else (case py_split sep cs of
              [] \<Rightarrow> [[c]]
            | p # ps \<Rightarrow> (c # p) # ps))"

text \<open>
  \<open>str.lower()\<close> on the ASCII range: \<open>A\<close>..\<open>Z\<close> go to \<open>a\<close>..\<open>z\<close>, every other
  byte is kept. (A \<open>string\<close> is a list of bytes; no letter of the allow-list is the
  lower case of a non-ASCII code point.)
\<close>

definition lower_char :: "char \<Rightarrow> char" where
  "lower_char c =
     (case map_of (zip ''ABCDEFGHIJKLMNOPQRSTUVWXYZ'' ''abcdefghijklmnopqrstuvwxyz'') c of
        Some d \<Rightarrow> d
      | None \<Rightarrow> c)"

definition py_lower :: "string \<Rightarrow> string" where
  "py_lower s = map lower_char s"

text \<open>\<open>str.replace(old, new)\<close> for one-character \<open>old\<close> and \<open>new\<close>.\<close>

definition py_replace :: "char \<Rightarrow> char \<Rightarrow> string \<Rightarrow> string" where
  "py_replace old new s = map (\<lambda>c. if c = old then new else c) s"

section \<open>Uploaded files and \<open>validate_image_file\<close>\<close>

text \<open>
  The uploaded file object as the views read it: \<open>file.name\<close>, \<open>file.size\<close>, and the
  bytes that \<open>file.read()\<close> returns. \<open>request.FILES.get('imageFile')\<close> is \<open>None\<close> when
  the field is absent.
\<close>

record uploaded_file =
  name :: string
  file_size :: int
  content :: "nat list"

text \<open>
  Truth value of the object in \<open>if not file\<close>: \<open>None\<close> is false, and a Django
  \<open>File\<close> is true exactly when its name is non-empty (\<open>File.__bool__\<close>).
\<close>

definition file_truthy :: "uploaded_file option \<Rightarrow> bool" where
  "file_truthy file = (case file of None \<Rightarrow> False | Some f \<Rightarrow> name f \<noteq> [])"

text \<open>
  The user-facing reason strings of \<open>validate_image_file\<close> (Japanese text in the
  source): no file selected; file too large, with the limit in MB; file format not
  allowed.
\<close>

datatype reason =
    NoFileSelected
  | FileTooLarge int
  | FormatNotAllowed

text \<open>\<open>file.name.split('.')[-1].lower()\<close>\<close>

definition extension :: "string \<Rightarrow> string" where
  "extension nm = py_lower (last (py_split (CHR ''.'') nm))"

definition validate_image_file :: "uploaded_file option \<Rightarrow> bool \<times> reason option" where
  "validate_image_file file =
     (case file of
        None \<Rightarrow> (False, Some NoFileSelected)
      | Some f \<Rightarrow>
          if \<not> file_truthy file then (False, Some NoFileSelected)
          else if file_size f > MAX_FILE_SIZE
            then (False, Some (FileTooLarge (MAX_FILE_SIZE div (1024 * 1024))))
          else if extension (name f) \<notin> ALLOWED_EXTENSIONS
            then (False, Some FormatNotAllowed)
          else (True, None))"

section \<open>Python values, exceptions and log entries\<close>

text \<open>
  The values \<open>json.load\<close> produces: \<open>None\<close>, booleans, integers, floats (finite ones,
  by their exact value), strings, lists, and dicts (as key-value lists with distinct
  keys, read with \<open>map_of\<close>).
\<close>

datatype pyval =
    PNone
  | PBool bool
  | PInt int
  | PFloat rat
  | PStr string
  | PList "pyval list"
  | PDict "(string \<times> pyval) list"

text \<open>Python's truth value, as \<open>or\<close> tests it.\<close>

fun truthy :: "pyval \<Rightarrow> bool" where
  "truthy PNone = False"
| "truthy (PBool b) = b"
| "truthy (PInt i) = (i \<noteq> 0)"
| "truthy (PFloat r) = (r \<noteq> 0)"
| "truthy (PStr s) = (s \<noteq> [])"
| "truthy (PList xs) = (xs \<noteq> [])"
| "truthy (PDict kvs) = (kvs \<noteq> [])"

text \<open>\<open>a or b\<close>\<close>

definition py_or :: "pyval \<Rightarrow> pyval \<Rightarrow> pyval" where
  "py_or a b = (if truthy a then a else b)"

datatype exn =
    FileNotFoundError
  | JSONDecodeError
  | TypeError
  | AttributeError
  | IndexError
  | OSError
  | DatabaseError
  | Http404
  | PageNotAnInteger
  | EmptyPage
  | OtherError

text \<open>
  The log lines of the views, by call site: \<open>logger.error\<close> in \<open>get_japanese_label\<close>
  (file not found, JSON decode error, unexpected error), in \<open>preprocess_image\<close> (decode
  returned nothing, preprocessing error), in \<open>perform_prediction\<close>, in
  \<open>save_analysis_result\<close> and in \<open>delete_data\<close>; \<open>logger.info\<close> after a save and
  after a delete.
\<close>

datatype log_entry =
    ErrLabelFileNotFound
  | ErrLabelJSON
  | ErrLabelUnexpected exn
  | ErrDecodeFailed
  | ErrPreprocess exn
  | ErrInference exn
  | ErrDatabaseSave exn
  | ErrDelete exn
  | InfoSaved "nat option"
  | InfoDeleted nat

section \<open>\<open>get_japanese_label\<close>\<close>

text \<open>
  What \<open>open(json_path)\<close> followed by \<open>json.load\<close> meets at the time of the call: no
  file, a file that is not JSON, a file that cannot be read for another reason, or a
  file holding a JSON value.
\<close>

datatype label_file =
    FileMissing
  | FileMalformed
  | FileUnreadable
  | FileJSON pyval

fun json_load :: "label_file \<Rightarrow> exn + pyval" where
  "json_load FileMissing = Inl FileNotFoundError"
| "json_load FileMalformed = Inl JSONDecodeError"
| "json_load FileUnreadable = Inl OSError"
| "json_load (FileJSON v) = Inr v"

text \<open>\<open>for item in j_labels\<close>: the items the loop visits, \<open>TypeError\<close> when the value is
  not iterable. A dict yields its keys, a string its characters.\<close>

fun py_iter :: "pyval \<Rightarrow> exn + pyval list" where
  "py_iter (PList xs) = Inr xs"
| "py_iter (PDict kvs) = Inr (map (\<lambda>kv. PStr (fst kv)) kvs)"
| "py_iter (PStr s) = Inr (map (\<lambda>c. PStr [c]) s)"
| "py_iter v = Inl TypeError"

text \<open>\<open>item.get(key)\<close>: a dict answers, \<open>None\<close> for a key it does not have; any other
  value has no \<open>get\<close>.\<close>

fun item_get :: "pyval \<Rightarrow> string \<Rightarrow> exn + pyval" where
  "item_get (PDict kvs) k = Inr (case map_of kvs k of None \<Rightarrow> PNone | Some v \<Rightarrow> v)"
| "item_get v k = Inl AttributeError"

text \<open>The body of the loop: the first item whose \<open>num\<close> equals the class id decides.\<close>

fun scan_items :: "pyval list \<Rightarrow> string \<Rightarrow> exn + pyval" where
  "scan_items [] class_id = Inr PNone"
| "scan_items (item # rest) class_id =
     (case item_get item ''num'' of
        Inl e \<Rightarrow> Inl e
      | Inr v \<Rightarrow>
          if v = PStr class_id then item_get item ''ja''
          else scan_items rest class_id)"

text \<open>The \<open>try\<close> block of \<open>get_japanese_label\<close>.\<close>

definition get_japanese_label_try :: "label_file \<Rightarrow> string \<Rightarrow> exn + pyval" where
  "get_japanese_label_try lf class_id =
     (case json_load lf of
        Inl e \<Rightarrow> Inl e
      | Inr j_labels \<Rightarrow>
          (case py_iter j_labels of
             Inl e \<Rightarrow> Inl e
           | Inr items \<Rightarrow> scan_items items class_id))"

text \<open>
  The whole function, with its three \<open>except\<close> clauses: the outcome (\<open>Inr\<close> a returned
  value, \<open>Inl\<close> an exception that leaves the function) and the lines logged.
\<close>

definition get_japanese_label :: "label_file \<Rightarrow> string \<Rightarrow> (exn + pyval) \<times> log_entry list" where
  "get_japanese_label lf class_id =
     (case get_japanese_label_try lf class_id of
        Inr v \<Rightarrow> (Inr v, [])
      | Inl FileNotFoundError \<Rightarrow> (Inr PNone, [ErrLabelFileNotFound])
      | Inl JSONDecodeError \<Rightarrow> (Inr PNone, [ErrLabelJSON])
      | Inl e \<Rightarrow> (Inr PNone, [ErrLabelUnexpected e]))"

section \<open>Float arithmetic and formatting\<close>

text \<open>
  A finite float is modelled by its exact value, a rational. Formatting with \<open>.2f\<close>
  and \<open>round(x, 2)\<close> both round the exact value to the nearest multiple of 1/100, a
  tie going to the even neighbour. (\<open>round\<close> then returns the float nearest to that
  decimal; the model keeps the decimal.) The product \<open>prob * 100\<close> is computed in
  floating point, so it is a parameter of the model, \<open>fmul\<close>, wherever it occurs.
\<close>

type_synonym pyfloat = rat

definition round_half_even :: "rat \<Rightarrow> int" where
  "round_half_even r =
     (let f = \<lfloor>r\<rfloor>; d = r - of_int f
      in if d < 1 / 2 then f
         else if 1 / 2 < d then f + 1
         else if even f then f else f + 1)"

text \<open>\<open>round(x, 2)\<close>\<close>

definition py_round2 :: "pyfloat \<Rightarrow> pyfloat" where
  "py_round2 x = of_int (round_half_even (x * 100)) / 100"

definition digit_char :: "nat \<Rightarrow> char" where
  "digit_char d = ''0123456789'' ! d"

fun digits :: "nat \<Rightarrow> string" where
  "digits n = (if n < 10 then [digit_char n] else digits (n div 10) @ [digit_char (n mod 10)])"

declare digits.simps [simp del]

text \<open>
  \<open>format(x, '.2f')\<close>: a minus sign for a negative value (also when it rounds to
  zero), the integer part in decimal, a point, and two decimals.
\<close>

definition format_2f :: "pyfloat \<Rightarrow> string" where
  "format_2f x =
     (let n = nat (round_half_even (\<bar>x\<bar> * 100))
      in (if x < 0 then ''-'' else []) @ digits (n div 100) @ ''.'' @
         [digit_char (n mod 100 div 10), digit_char (n mod 10)])"

section \<open>\<open>format_predictions\<close>\<close>

text \<open>One entry of \<open>decode_predictions\<close>: class id, native label, probability.\<close>

type_synonym result = "string \<times> string \<times> pyfloat"

text \<open>The dict built for each entry, with its keys \<open>name\<close>, \<open>prob\<close>, \<open>raw_prob\<close>
  and \<open>class_id\<close>.\<close>

record prediction =
  pred_name :: pyval
  pred_prob :: string
  pred_raw_prob :: pyfloat
  pred_class_id :: string

text \<open>\<open>get_japanese_label(class_id) or name.replace('_', ' ')\<close>\<close>

definition label_or_fallback :: "label_file \<Rightarrow> string \<Rightarrow> string \<Rightarrow> (exn + pyval) \<times> log_entry list" where
  "label_or_fallback lf class_id nm =
     (case get_japanese_label lf class_id of
        (Inl e, logs) \<Rightarrow> (Inl e, logs)
      | (Inr jp, logs) \<Rightarrow> (Inr (py_or jp (PStr (py_replace (CHR ''_'') (CHR '' '') nm))), logs))"

text \<open>The body of the loop of \<open>format_predictions\<close>: the dict appended for one
  entry; an exception of the label lookup would leave the function.\<close>

fun format_entry ::
  "(pyfloat \<Rightarrow> pyfloat \<Rightarrow> pyfloat) \<Rightarrow> label_file \<Rightarrow> result \<Rightarrow>
     (exn + prediction) \<times> log_entry list"
where
  "format_entry fmul lf (class_id, nm, prob) =
     (case label_or_fallback lf class_id nm of
        (Inl ex, logs) \<Rightarrow> (Inl ex, logs)
      | (Inr jp_name, logs) \<Rightarrow>
          (Inr \<lparr>pred_name = jp_name,
                pred_prob = format_2f (fmul prob 100) @ ''%'',
                pred_raw_prob = fmul prob 100,
                pred_class_id = class_id\<rparr>,
           logs))"

text \<open>The loop, appending to \<open>predictions\<close> in the order of \<open>results\<close>.\<close>

fun format_loop ::
  "(pyfloat \<Rightarrow> pyfloat \<Rightarrow> pyfloat) \<Rightarrow> label_file \<Rightarrow> result list \<Rightarrow> prediction list \<Rightarrow>
     (exn + prediction list) \<times> log_entry list"
where
  "format_loop fmul lf [] predictions = (Inr predictions, [])"
| "format_loop fmul lf (r # rest) predictions =
     (case format_entry fmul lf r of
        (Inl ex, logs) \<Rightarrow> (Inl ex, logs)
      | (Inr p, logs) \<Rightarrow>
          (case format_loop fmul lf rest (predictions @ [p]) of
             (res, logs') \<Rightarrow> (res, logs @ logs')))"

definition format_predictions ::
  "(pyfloat \<Rightarrow> pyfloat \<Rightarrow> pyfloat) \<Rightarrow> label_file \<Rightarrow> result list \<Rightarrow>
     (exn + prediction list) \<times> log_entry list"
where
  "format_predictions fmul lf results = format_loop fmul lf results []"

section \<open>The \<open>AnalysisResult\<close> table and the media storage\<close>

text \<open>
  The fields of \<open>AnalysisResult\<close> that the views set: the primary key (\<open>None\<close> until
  the row is inserted), the name of the stored image, and the values passed to the
  constructor. The two timestamps are set by the database layer and are left out.
\<close>

record analysis_result =
  pk :: "nat option"
  image_name :: string
  original_filename :: string
  prediction_label :: pyval
  prediction_score :: pyfloat
  processing_time :: pyfloat
  model_version :: string

text \<open>An entry of the media directory; the flag of a regular file says whether
  \<open>os.remove\<close> succeeds on it.\<close>

datatype fs_entry = RegularFile bool | Directory

record world =
  labels :: label_file
  db_up :: bool
  table :: "analysis_result list"
  next_pk :: nat
  media :: "(string \<times> fs_entry) list"
  app_log :: "log_entry list"

definition add_log :: "log_entry list \<Rightarrow> world \<Rightarrow> world" where
  "add_log entries w = w\<lparr>app_log := app_log w @ entries\<rparr>"


text \<open>
  \<open>instance.save()\<close> of a new instance, as Django's \<open>Model.save\<close> does it (this class
  does not override it): the image goes to the storage under the name the storage
  chose, and the row is inserted with a fresh key. Field validators are not run. A
  database that is down raises.
\<close>

definition model_save :: "string \<Rightarrow> analysis_result \<Rightarrow> world \<Rightarrow> (exn + analysis_result) \<times> world" where
  "model_save stored_name inst w =
     (if \<not> db_up w then (Inl DatabaseError, w)
      else
        let row = inst\<lparr>pk := Some (next_pk w), image_name := stored_name\<rparr>
        in (Inr row,
            w\<lparr>table := table w @ [row],
              next_pk := next_pk w + 1,
              media := (stored_name, RegularFile True) # media w\<rparr>))"

definition os_path_isfile :: "world \<Rightarrow> string \<Rightarrow> bool" where
  "os_path_isfile w path =
     (case map_of (media w) path of Some (RegularFile removable) \<Rightarrow> True | _ \<Rightarrow> False)"

definition os_remove :: "string \<Rightarrow> world \<Rightarrow> exn + world" where
  "os_remove path w =
     (case map_of (media w) path of
        Some (RegularFile True) \<Rightarrow> Inr (w\<lparr>media := filter (\<lambda>kv. fst kv \<noteq> path) (media w)\<rparr>)
      | Some (RegularFile False) \<Rightarrow> Inl OSError
      | Some Directory \<Rightarrow> Inl OSError
      | None \<Rightarrow> Inl FileNotFoundError)"

text \<open>\<open>super().delete()\<close>: the row with this key leaves the table.\<close>

definition model_delete :: "analysis_result \<Rightarrow> world \<Rightarrow> exn option \<times> world" where
  "model_delete row w =
     (if \<not> db_up w then (Some DatabaseError, w)
      else (None, w\<lparr>table := filter (\<lambda>r. pk r \<noteq> pk row) (table w)\<rparr>))"

text \<open>
  \<open>AnalysisResult.delete\<close>: when the image field is set (its name is non-empty) and the
  path is a regular file, remove the file; then delete the row. An exception of
  \<open>os.remove\<close> leaves the method before the row is touched. The result is the
  exception that left the method, if any, and the world at that point.
\<close>

definition AnalysisResult_delete :: "analysis_result \<Rightarrow> world \<Rightarrow> exn option \<times> world" where
  "AnalysisResult_delete row w =
     (if image_name row \<noteq> [] \<and> os_path_isfile w (image_name row) then
        (case os_remove (image_name row) w of
           Inl ex \<Rightarrow> (Some ex, w)
         | Inr w' \<Rightarrow> model_delete row w')
      else model_delete row w)"

section \<open>The upload view\<close>

text \<open>
  The flash messages of the views (Japanese text in the source), by call site:
  \<open>messages.error\<close> with the reason of the validation, with "could not read the
  image", with "analysis failed" and with "deletion failed"; \<open>messages.success\<close> after
  an analysis (with the processing time) and after a deletion (with the id);
  \<open>messages.warning\<close> "analysis finished but the result could not be saved".
\<close>

datatype message =
    ErrorValidation "reason option"
  | ErrorImageLoad
  | ErrorAnalysis
  | SuccessAnalysed pyfloat
  | WarningNotSaved
  | SuccessDeleted nat
  | ErrorDeleteFailed

text \<open>
  What the views call outside this repository: the float product, \<open>cv2.imdecode\<close> on
  the bytes read (\<open>None\<close> when the codec rejects them), the resize and
  \<open>preprocess_input\<close> steps, the model's \<open>predict\<close> with \<open>decode_predictions\<close>, the
  clock difference measured around the analysis, and the name the storage gives the
  uploaded image.
\<close>

record ('img, 'tensor) env =
  fmul :: "pyfloat \<Rightarrow> pyfloat \<Rightarrow> pyfloat"
  cv2_imdecode :: "nat list \<Rightarrow> exn + 'img option"
  resize_and_preprocess :: "'img \<Rightarrow> exn + 'tensor"
  model_predict :: "'tensor \<Rightarrow> exn + result list"
  elapsed :: pyfloat
  storage_name :: "uploaded_file \<Rightarrow> string"

definition preprocess_image ::
  "('img, 'tensor) env \<Rightarrow> uploaded_file \<Rightarrow> 'tensor option \<times> log_entry list"
where
  "preprocess_image e file =
     (case cv2_imdecode e (content file) of
        Inl ex \<Rightarrow> (None, [ErrPreprocess ex])
      | Inr None \<Rightarrow> (None, [ErrDecodeFailed])
      | Inr (Some img) \<Rightarrow>
          (case resize_and_preprocess e img of
             Inl ex \<Rightarrow> (None, [ErrPreprocess ex])
           | Inr x \<Rightarrow> (Some x, [])))"

definition perform_prediction ::
  "('img, 'tensor) env \<Rightarrow> 'tensor \<Rightarrow> result list option \<times> log_entry list"
where
  "perform_prediction e preprocessed_image =
     (case model_predict e preprocessed_image of
        Inl ex \<Rightarrow> (None, [ErrInference ex])
      | Inr results \<Rightarrow> (Some results, []))"

text \<open>The \<open>try\<close> block of \<open>save_analysis_result\<close>; \<open>results[0]\<close> raises on an empty
  list.\<close>

definition save_analysis_result_try ::
  "('img, 'tensor) env \<Rightarrow> uploaded_file \<Rightarrow> result list \<Rightarrow> pyfloat \<Rightarrow> world \<Rightarrow>
     (exn + analysis_result) \<times> world"
where
  "save_analysis_result_try e file results ptime w =
     (case results of
        [] \<Rightarrow> (Inl IndexError, w)
      | (top_id, top_name, top_prob) # rest \<Rightarrow>
          (case label_or_fallback (labels w) top_id top_name of
             (Inl ex, logs) \<Rightarrow> (Inl ex, add_log logs w)
           | (Inr top_jp_name, logs) \<Rightarrow>
               (case model_save (storage_name e file)
                       \<lparr>pk = None,
                        image_name = [],
                        original_filename = name file,
                        prediction_label = top_jp_name,
                        prediction_score = py_round2 (fmul e top_prob 100),
                        processing_time = ptime,
                        model_version = ''EfficientNetB0-v1.0''\<rparr>
                       (add_log logs w) of
                  (Inl ex, w') \<Rightarrow> (Inl ex, w')
                | (Inr inst, w') \<Rightarrow> (Inr inst, add_log [InfoSaved (pk inst)] w'))))"

definition save_analysis_result ::
  "('img, 'tensor) env \<Rightarrow> uploaded_file \<Rightarrow> result list \<Rightarrow> pyfloat \<Rightarrow> world \<Rightarrow>
     analysis_result option \<times> world"
where
  "save_analysis_result e file results ptime w =
     (case save_analysis_result_try e file results ptime w of
        (Inr inst, w') \<Rightarrow> (Some inst, w')
      | (Inl ex, w') \<Rightarrow> (None, add_log [ErrDatabaseSave ex] w'))"

datatype http_method = GET | POST | OTHER

text \<open>What a view returns: the rendered template with its context, a redirect to the
  history page, or the 405 of \<open>require_http_methods\<close>.\<close>

datatype response =
    RenderIndex "prediction list option" "string option"
  | RedirectViewData
  | MethodNotAllowed

text \<open>\<open>index\<close>: the response, the messages added to the request, and the world after
  it; \<open>Inl\<close> is an exception that leaves the view.\<close>

definition index ::
  "('img, 'tensor) env \<Rightarrow> http_method \<Rightarrow> uploaded_file option \<Rightarrow> world \<Rightarrow>
     (exn + response \<times> message list) \<times> world"
where
  "index e method file_opt w =
     (case method of
        OTHER \<Rightarrow> (Inr (MethodNotAllowed, []), w)
      | GET \<Rightarrow> (Inr (RenderIndex None None, []), w)
      | POST \<Rightarrow>
          (case validate_image_file file_opt of
             (False, error_message) \<Rightarrow>
               (Inr (RenderIndex None None, [ErrorValidation error_message]), w)
           | (True, error_message) \<Rightarrow>
               (case file_opt of
                  None \<Rightarrow>
                    (Inr (RenderIndex None None, [ErrorImageLoad]),
                     add_log [ErrPreprocess AttributeError] w)
                | Some file \<Rightarrow>
                    (case preprocess_image e file of
                       (None, logs1) \<Rightarrow>
                         (Inr (RenderIndex None None, [ErrorImageLoad]), add_log logs1 w)
                     | (Some x, logs1) \<Rightarrow>
                         (case perform_prediction e x of
                            (None, logs2) \<Rightarrow>
                              (Inr (RenderIndex None None, [ErrorAnalysis]),
                               add_log (logs1 @ logs2) w)
                          | (Some results, logs2) \<Rightarrow>
                              (case format_predictions (fmul e) (labels w) results of
                                 (Inl ex, logs3) \<Rightarrow> (Inl ex, add_log (logs1 @ logs2 @ logs3) w)
                               | (Inr predictions, logs3) \<Rightarrow>
                                   (case save_analysis_result e file results (elapsed e)
                                           (add_log (logs1 @ logs2 @ logs3) w) of
                                      (Some inst, w') \<Rightarrow>
                                        (Inr (RenderIndex (Some predictions) (Some (image_name inst)),
                                              [SuccessAnalysed (elapsed e)]), w')
                                    | (None, w') \<Rightarrow>
                                        (Inr (RenderIndex (Some predictions) None,
                                              [WarningNotSaved]), w'))))))))"

section \<open>The history view\<close>

text \<open>
  Django's \<open>Paginator(object_list, per_page)\<close> with its defaults (no orphans, an empty
  first page allowed), after \<open>django/core/paginator.py\<close>: \<open>num_pages\<close> is 1 for an
  empty list and the rounded-up quotient otherwise; \<open>validate_number\<close> raises
  \<open>PageNotAnInteger\<close> when \<open>int(number)\<close> fails and \<open>EmptyPage\<close> when the number is
  below 1 or above \<open>num_pages\<close>; \<open>page\<close> returns the slice of the list and the number.
\<close>

text \<open>The \<open>page\<close> query parameter as \<open>int()\<close> sees it: a value it converts, or one on
  which it raises.\<close>

datatype page_arg = IntLike int | NotIntLike

definition num_pages :: "'a list \<Rightarrow> nat \<Rightarrow> nat" where
  "num_pages object_list per_page =
     (if length object_list = 0 then 1
      else (max 1 (length object_list) + per_page - 1) div per_page)"

definition validate_number :: "'a list \<Rightarrow> nat \<Rightarrow> page_arg \<Rightarrow> exn + nat" where
  "validate_number object_list per_page number =
     (case number of
        NotIntLike \<Rightarrow> Inl PageNotAnInteger
      | IntLike n \<Rightarrow>
          if n < 1 then Inl EmptyPage
          else if n > int (num_pages object_list per_page) then Inl EmptyPage
          else Inr (nat n))"

type_synonym 'a page = "'a list \<times> nat"

definition paginator_page :: "'a list \<Rightarrow> nat \<Rightarrow> page_arg \<Rightarrow> exn + 'a page" where
  "paginator_page object_list per_page number =
     (case validate_number object_list per_page number of
        Inl ex \<Rightarrow> Inl ex
      | Inr n \<Rightarrow>
          let bottom = (n - 1) * per_page;
              top = (if bottom + per_page \<ge> length object_list then length object_list
                     else bottom + per_page)
          in Inr (take (top - bottom) (drop bottom object_list), n))"

text \<open>
  \<open>view_data\<close> from the paginator on: \<open>all_results\<close> is the ordered, filtered query
  set, \<open>page_number\<close> the query parameter (\<open>IntLike 1\<close> when absent). The result is the
  page put into the template context.
\<close>

definition view_data :: "'a list \<Rightarrow> page_arg \<Rightarrow> exn + 'a page" where
  "view_data all_results page_number =
     (case paginator_page all_results ITEMS_PER_PAGE page_number of
        Inr results \<Rightarrow> Inr results
      | Inl PageNotAnInteger \<Rightarrow> paginator_page all_results ITEMS_PER_PAGE (IntLike 1)
      | Inl EmptyPage \<Rightarrow>
          paginator_page all_results ITEMS_PER_PAGE
            (IntLike (int (num_pages all_results ITEMS_PER_PAGE)))
      | Inl ex \<Rightarrow> Inl ex)"

section \<open>The delete view\<close>

definition get_object_or_404 :: "nat \<Rightarrow> world \<Rightarrow> exn + analysis_result" where
  "get_object_or_404 k w =
     (if \<not> db_up w then Inl DatabaseError
      else (case find (\<lambda>r. pk r = Some k) (table w) of
              None \<Rightarrow> Inl Http404
            | Some r \<Rightarrow> Inr r))"

text \<open>\<open>delete_data\<close>: \<open>Inl\<close> is an exception that leaves the view (\<open>Http404\<close> becomes
  the 404 response).\<close>

definition delete_data ::
  "http_method \<Rightarrow> nat \<Rightarrow> world \<Rightarrow> (exn + response \<times> message list) \<times> world"
where
  "delete_data method k w =
     (if method \<noteq> POST then (Inr (MethodNotAllowed, []), w)
      else
        (case get_object_or_404 k w of
           Inl ex \<Rightarrow> (Inl ex, w)
         | Inr result \<Rightarrow>
             (case AnalysisResult_delete result w of
                (None, w') \<Rightarrow>
                  (Inr (RedirectViewData, [SuccessDeleted k]), add_log [InfoDeleted k] w')
              | (Some ex, w') \<Rightarrow>
                  (Inr (RedirectViewData, [ErrorDeleteFailed]), add_log [ErrDelete ex] w'))))"

section \<open>Properties of the string operations\<close>

lemma py_split_not_Nil: "py_split sep s \<noteq> []"
  by (induction s) (auto split: list.splits)

lemma py_split_no_sep: "sep \<notin> set s \<Longrightarrow> py_split sep s = [s]"
  by (induction s) auto

lemma extension_no_dot: "CHR ''.'' \<notin> set nm \<Longrightarrow> extension nm = py_lower nm"
  by (simp add: extension_def py_split_no_sep)

lemma extension_Nil: "extension [] = []"
  by (simp add: extension_def py_lower_def)

lemma Nil_not_allowed: "[] \<notin> ALLOWED_EXTENSIONS"
  by (simp add: ALLOWED_EXTENSIONS_def)

lemma allowed_name_not_Nil: "extension nm \<in> ALLOWED_EXTENSIONS \<Longrightarrow> nm \<noteq> []"
  using extension_Nil Nil_not_allowed by metis

lemma of_char_lower_char:
  "of_char (lower_char c) =
     (if 65 \<le> (of_char c :: nat) \<and> (of_char c :: nat) \<le> 90 then of_char c + 32 else of_char c)"
  by (cases c) (simp add: lower_char_def)

lemma of_char_py_lower:
  "map (of_char :: char \<Rightarrow> nat) (py_lower s) =
     map (\<lambda>c. if 65 \<le> (of_char c :: nat) \<and> (of_char c :: nat) \<le> 90
               then of_char c + 32 else of_char c) s"
  by (simp add: py_lower_def of_char_lower_char)

section \<open>Validation\<close>

text \<open>
  C4. For a file that is present, with its extension (the last dot-separated component
  of the name, lowercased) in the allow-list, validation accepts exactly when the size is
  at most 10 MiB, so a file of 10 MiB is accepted and one of 10 MiB + 1 byte is rejected;
  a file whose extension is not in the allow-list is rejected whatever its size and
  content; every rejection carries a reason.
\<close>

theorem validate_image_file_allow_list:
  "(extension (name f) \<in> ALLOWED_EXTENSIONS \<longrightarrow>
      (file_size f \<le> 10 * 1024 * 1024 \<longrightarrow> validate_image_file (Some f) = (True, None)) \<and>
      (file_size f > 10 * 1024 * 1024 \<longrightarrow>
         (\<exists>r. validate_image_file (Some f) = (False, Some r)))) \<and>
   (extension (name f) \<notin> ALLOWED_EXTENSIONS \<longrightarrow>
      (\<exists>r. validate_image_file (Some f) = (False, Some r)))"
  using allowed_name_not_Nil [of "name f"]
  by (auto simp: validate_image_file_def file_truthy_def MAX_FILE_SIZE_def)

theorem validate_image_file_allow_list_witness:
  "extension ''photo.JPG'' \<in> ALLOWED_EXTENSIONS \<and>
   validate_image_file
     (Some \<lparr>name = ''photo.JPG'', file_size = 10485760, content = []\<rparr>) = (True, None) \<and>
   (\<exists>r. validate_image_file
      (Some \<lparr>name = ''photo.JPG'', file_size = 10485761, content = []\<rparr>) = (False, Some r)) \<and>
   extension ''notes.txt'' \<notin> ALLOWED_EXTENSIONS \<and>
   (\<exists>r. validate_image_file
      (Some \<lparr>name = ''notes.txt'', file_size = 3, content = []\<rparr>) = (False, Some r))"
proof -
  have ok: "extension ''photo.JPG'' \<in> ALLOWED_EXTENSIONS"
    by (simp add: extension_def py_lower_def lower_char_def ALLOWED_EXTENSIONS_def)
  have bad: "extension ''notes.txt'' \<notin> ALLOWED_EXTENSIONS"
    by (simp add: extension_def py_lower_def lower_char_def ALLOWED_EXTENSIONS_def)
  show ?thesis
    using ok bad
      validate_image_file_allow_list
        [of "\<lparr>name = ''photo.JPG'', file_size = 10485760, content = []\<rparr>"]
      validate_image_file_allow_list
        [of "\<lparr>name = ''photo.JPG'', file_size = 10485761, content = []\<rparr>"]
      validate_image_file_allow_list
        [of "\<lparr>name = ''notes.txt'', file_size = 3, content = []\<rparr>"]
    by simp
qed

text \<open>
  C10. For a file that is present and whose name has no dot, the extension the check
  looks at is the entire filename, lowercased: character by character, the codes 65 to
  90 (\<open>A\<close> to \<open>Z\<close>) are raised by 32 and every other code is kept. Within the size limit
  such a file passes validation exactly when that extension is a word of the allow-list
  (files named \<open>png\<close>, \<open>PNG\<close> or \<open>Jpeg\<close> pass), and every other dotless name is
  rejected.
\<close>

theorem validate_image_file_dotless:
  assumes "CHR ''.'' \<notin> set (name f)"
  shows "map (of_char :: char \<Rightarrow> nat) (extension (name f)) =
           map (\<lambda>c. if 65 \<le> (of_char c :: nat) \<and> (of_char c :: nat) \<le> 90
                     then of_char c + 32 else of_char c) (name f) \<and>
         extension (name f) = py_lower (name f) \<and>
         (file_size f \<le> MAX_FILE_SIZE \<longrightarrow>
            (validate_image_file (Some f) = (True, None)
               \<longleftrightarrow> extension (name f) \<in> ALLOWED_EXTENSIONS)) \<and>
         (file_size f \<le> MAX_FILE_SIZE \<longrightarrow>
            (validate_image_file (Some f) = (True, None)
               \<longleftrightarrow> py_lower (name f) \<in> ALLOWED_EXTENSIONS)) \<and>
         (py_lower (name f) \<notin> ALLOWED_EXTENSIONS \<longrightarrow>
            (\<exists>r. validate_image_file (Some f) = (False, Some r)))"
proof -
  have ext: "extension (name f) = py_lower (name f)"
    using assms by (rule extension_no_dot)
  have codes: "map (of_char :: char \<Rightarrow> nat) (extension (name f)) =
           map (\<lambda>c. if 65 \<le> (of_char c :: nat) \<and> (of_char c :: nat) \<le> 90
                     then of_char c + 32 else of_char c) (name f)"
    unfolding ext by (rule of_char_py_lower)
  have nonempty: "py_lower (name f) \<in> ALLOWED_EXTENSIONS \<Longrightarrow> name f \<noteq> []"
    using ext allowed_name_not_Nil [of "name f"] by simp
  have rest: "(file_size f \<le> MAX_FILE_SIZE \<longrightarrow>
            (validate_image_file (Some f) = (True, None)
               \<longleftrightarrow> py_lower (name f) \<in> ALLOWED_EXTENSIONS)) \<and>
         (py_lower (name f) \<notin> ALLOWED_EXTENSIONS \<longrightarrow>
            (\<exists>r. validate_image_file (Some f) = (False, Some r)))"
    using ext nonempty
    by (auto simp: validate_image_file_def file_truthy_def)
  show ?thesis
    using codes ext rest by simp
qed

theorem validate_image_file_dotless_witness:
  "CHR ''.'' \<notin> set ''PNG'' \<and>
   map of_char (extension ''PNG'') = [112, 110, 103 :: nat] \<and>
   extension ''PNG'' = ''png'' \<and>
   validate_image_file (Some \<lparr>name = ''PNG'', file_size = 2048, content = []\<rparr>) = (True, None) \<and>
   CHR ''.'' \<notin> set ''Jpeg'' \<and>
   validate_image_file (Some \<lparr>name = ''Jpeg'', file_size = 2048, content = []\<rparr>) = (True, None) \<and>
   CHR ''.'' \<notin> set ''png'' \<and>
   validate_image_file (Some \<lparr>name = ''png'', file_size = 2048, content = []\<rparr>) = (True, None) \<and>
   CHR ''.'' \<notin> set ''README'' \<and>
   (\<exists>r. validate_image_file
      (Some \<lparr>name = ''README'', file_size = 2048, content = []\<rparr>) = (False, Some r))"
proof -
  have allowed: "''png'' \<in> ALLOWED_EXTENSIONS" "''jpeg'' \<in> ALLOWED_EXTENSIONS"
    "''readme'' \<notin> ALLOWED_EXTENSIONS"
    by (simp_all add: ALLOWED_EXTENSIONS_def)
  have d1: "CHR ''.'' \<notin> set (name \<lparr>name = ''PNG'', file_size = 2048, content = []\<rparr>)"
    by simp
  have d2: "CHR ''.'' \<notin> set (name \<lparr>name = ''Jpeg'', file_size = 2048, content = []\<rparr>)"
    by simp
  have d3: "CHR ''.'' \<notin> set (name \<lparr>name = ''png'', file_size = 2048, content = []\<rparr>)"
    by simp
  have d4: "CHR ''.'' \<notin> set (name \<lparr>name = ''README'', file_size = 2048, content = []\<rparr>)"
    by simp
  note t1 = validate_image_file_dotless [OF d1]
  note t2 = validate_image_file_dotless [OF d2]
  note t3 = validate_image_file_dotless [OF d3]
  note t4 = validate_image_file_dotless [OF d4]
  have lows: "py_lower ''PNG'' = ''png''" "py_lower ''Jpeg'' = ''jpeg''"
    "py_lower ''png'' = ''png''" "py_lower ''README'' = ''readme''"
    by (simp_all add: py_lower_def lower_char_def)
  have c1: "map of_char (extension ''PNG'') = [112, 110, 103 :: nat]"
    using t1 [THEN conjunct1] by simp
  have e1: "extension ''PNG'' = ''png''"
    using t1 [THEN conjunct2, THEN conjunct1] lows(1) by simp
  have v1: "validate_image_file (Some \<lparr>name = ''PNG'', file_size = 2048, content = []\<rparr>) =
      (True, None)"
    using t1 [THEN conjunct2, THEN conjunct2, THEN conjunct2, THEN conjunct1] lows(1) allowed(1)
    by (simp add: MAX_FILE_SIZE_def)
  have v2: "validate_image_file (Some \<lparr>name = ''Jpeg'', file_size = 2048, content = []\<rparr>) =
      (True, None)"
    using t2 [THEN conjunct2, THEN conjunct2, THEN conjunct2, THEN conjunct1] lows(2) allowed(2)
    by (simp add: MAX_FILE_SIZE_def)
  have v3: "validate_image_file (Some \<lparr>name = ''png'', file_size = 2048, content = []\<rparr>) =
      (True, None)"
    using t3 [THEN conjunct2, THEN conjunct2, THEN conjunct2, THEN conjunct1] lows(3) allowed(1)
    by (simp add: MAX_FILE_SIZE_def)
  have v4: "\<exists>r. validate_image_file
      (Some \<lparr>name = ''README'', file_size = 2048, content = []\<rparr>) = (False, Some r)"
    using t4 [THEN conjunct2, THEN conjunct2, THEN conjunct2, THEN conjunct2] lows(4) allowed(3)
    by simp
  show ?thesis
    using c1 e1 v1 v2 v3 v4 by simp
qed

section \<open>Label lookup\<close>

lemma get_japanese_label_returns:
  "\<exists>v logs. get_japanese_label lf class_id = (Inr v, logs)"
  by (simp add: get_japanese_label_def split: sum.split exn.split)

lemma scan_items_absent:
  "\<forall>item \<in> set items. \<exists>kvs. item = PDict kvs \<and> map_of kvs ''num'' \<noteq> Some (PStr class_id)
   \<Longrightarrow> scan_items items class_id = Inr PNone"
proof (induction items)
  case Nil
  then show ?case by simp
next
  case (Cons item rest)
  then obtain kvs where kvs: "item = PDict kvs" "map_of kvs ''num'' \<noteq> Some (PStr class_id)"
    by auto
  have "scan_items rest class_id = Inr PNone"
    using Cons by simp
  then show ?case
    using kvs by (auto split: option.splits)
qed

text \<open>
  C2, as the code has it. The lookup never raises: whatever the state of the reference
  file and whatever the class id, it returns a value. For a class id that no entry of
  a well-formed table carries it returns \<open>None\<close> and logs nothing. A missing or
  malformed reference file is met by the lookup itself, on every call: \<open>json.load\<close>
  raises, the \<open>except\<close> clause logs the error and the lookup returns \<open>None\<close>; nothing
  is raised to the caller.
\<close>

theorem get_japanese_label_handles_errors:
  "(\<exists>v logs. get_japanese_label lf class_id = (Inr v, logs)) \<and>
   ((\<forall>item \<in> set items. \<exists>kvs. item = PDict kvs \<and> map_of kvs ''num'' \<noteq> Some (PStr class_id))
      \<longrightarrow> get_japanese_label (FileJSON (PList items)) class_id = (Inr PNone, [])) \<and>
   json_load FileMissing = Inl FileNotFoundError \<and>
   get_japanese_label FileMissing class_id = (Inr PNone, [ErrLabelFileNotFound]) \<and>
   json_load FileMalformed = Inl JSONDecodeError \<and>
   get_japanese_label FileMalformed class_id = (Inr PNone, [ErrLabelJSON])"
  using get_japanese_label_returns [of lf class_id] scan_items_absent [of items class_id]
  by (simp add: get_japanese_label_def get_japanese_label_try_def)

theorem get_japanese_label_handles_errors_witness:
  "map_of [(''num'', PStr ''n01440764''), (''ja'', PStr ''tench'')] ''num''
     \<noteq> Some (PStr ''n02084071'') \<and>
   get_japanese_label
     (FileJSON (PList [PDict [(''num'', PStr ''n01440764''), (''ja'', PStr ''tench'')]]))
     ''n02084071'' = (Inr PNone, []) \<and>
   get_japanese_label FileMalformed ''n02084071'' = (Inr PNone, [ErrLabelJSON])"
proof -
  have absent: "\<forall>item \<in> set [PDict [(''num'', PStr ''n01440764''), (''ja'', PStr ''tench'')]].
      \<exists>kvs. item = PDict kvs \<and> map_of kvs ''num'' \<noteq> Some (PStr ''n02084071'')"
    by simp
  show ?thesis
    using absent get_japanese_label_handles_errors
      [of "FileMissing" "''n02084071''"
          "[PDict [(''num'', PStr ''n01440764''), (''ja'', PStr ''tench'')]]"]
    by simp
qed

text \<open>
  The claim as stated fails: with the reference file missing, a lookup during a request
  does not raise; it returns \<open>None\<close> after logging the error.
\<close>

theorem missing_label_file_handled_per_request:
  "json_load FileMissing = Inl FileNotFoundError \<and>
   get_japanese_label FileMissing ''n01440764'' = (Inr PNone, [ErrLabelFileNotFound])"
  by (simp add: get_japanese_label_def get_japanese_label_try_def)

section \<open>Formatting\<close>

lemma digit_char_in_digits: "d < 10 \<Longrightarrow> digit_char d \<in> set ''0123456789''"
  unfolding digit_char_def by (rule nth_mem) simp

lemma digits_all_decimal: "set (digits n) \<subseteq> set ''0123456789''"
proof (induction n rule: digits.induct)
  case (1 n)
  show ?case
  proof (cases "n < 10")
    case True
    then show ?thesis
      using digit_char_in_digits [of n] by (subst digits.simps) simp
  next
    case False
    have "n mod 10 < 10" by simp
    then have "digit_char (n mod 10) \<in> set ''0123456789''"
      by (rule digit_char_in_digits)
    then show ?thesis
      using False "1.IH" by (subst digits.simps) simp
  qed
qed

lemma digits_not_Nil: "digits n \<noteq> []"
  by (subst digits.simps) simp

lemma round_half_even_close: "\<bar>of_int (round_half_even r) - r\<bar> \<le> 1 / 2"
proof -
  have "of_int \<lfloor>r\<rfloor> \<le> r" "r < of_int \<lfloor>r\<rfloor> + 1"
    by linarith+
  then show ?thesis
    by (auto simp: round_half_even_def Let_def)
qed

lemma round_half_even_nonneg: "0 \<le> r \<Longrightarrow> 0 \<le> round_half_even r"
  by (auto simp: round_half_even_def Let_def)

lemma round_half_even_eq:
  assumes "of_int k \<le> r" "r < of_int k + 1 / 2"
  shows "round_half_even r = k"
proof -
  have "\<lfloor>r\<rfloor> = k" using assms by linarith
  then show ?thesis using assms by (simp add: round_half_even_def Let_def)
qed

lemma format_2f_example:
  assumes "\<bar>y - 9550234 / 100000\<bar> \<le> 1 / 1000"
  shows "format_2f y @ ''%'' = ''95.50%''"
proof -
  have y: "\<not> y < 0" "\<bar>y\<bar> = y" "of_int 9550 \<le> y * 100" "y * 100 < of_int 9550 + 1 / 2"
    using assms by (auto simp: abs_if split: if_splits)
  have n: "nat (round_half_even (\<bar>y\<bar> * 100)) = 9550"
    using round_half_even_eq [OF y(3,4)] y(2) by simp
  have d: "digits 95 = ''95''"
    by (simp add: digits.simps [of 95] digits.simps [of 9] digit_char_def)
  have "format_2f y = digits 95 @ ''.'' @ [digit_char 5, digit_char 0]"
    unfolding format_2f_def n Let_def using y(1) by simp
  then show ?thesis
    by (simp add: d digit_char_def)
qed

lemma of_char_digit_char: "d < 10 \<Longrightarrow> (of_char (digit_char d) :: nat) = 48 + d"
proof -
  assume "d < 10"
  then have "d = 0 \<or> d = 1 \<or> d = 2 \<or> d = 3 \<or> d = 4 \<or> d = 5 \<or> d = 6 \<or> d = 7 \<or>
    d = 8 \<or> d = 9"
    by arith
  then show ?thesis
    by (auto simp: digit_char_def)
qed

lemma digits_read_back:
  "foldl (\<lambda>a c. 10 * a + (of_char c - 48)) (0::nat) (digits n) = n"
proof (induction n rule: digits.induct)
  case (1 n)
  show ?case
  proof (cases "n < 10")
    case True
    then show ?thesis
      by (subst digits.simps) (simp add: of_char_digit_char)
  next
    case False
    have "(of_char (digit_char (n mod 10)) :: nat) = 48 + n mod 10"
      by (rule of_char_digit_char) simp
    then show ?thesis
      using False "1.IH" by (subst digits.simps) simp
  qed
qed

lemma two_digit_split: "10 * (10 * (n div 100) + n mod 100 div 10) + n mod 10 = (n::nat)"
proof -
  define q r s u where "q = n div 100" and "r = n mod 100" and "s = r div 10" and "u = n mod 10"
  have m: "r mod 10 = u"
    by (simp add: r_def u_def mod_mod_cancel)
  have a: "r = 10 * s + u"
    unfolding s_def m [symmetric] by (rule mult_div_mod_eq [symmetric])
  have b: "n = 100 * q + r"
    unfolding q_def r_def by (rule mult_div_mod_eq [symmetric])
  have "10 * (10 * q + s) + u = n"
    unfolding b a by simp
  then show ?thesis
    by (simp add: q_def r_def s_def u_def)
qed

lemma two_decimals_read_back:
  "foldl (\<lambda>a c. 10 * a + (of_char c - 48)) (0::nat)
     (digits (n div 100) @ [digit_char (n mod 100 div 10), digit_char (n mod 10)]) = n"
proof -
  have a: "(of_char (digit_char (n mod 100 div 10)) :: nat) - 48 = n mod 100 div 10"
    using of_char_digit_char [of "n mod 100 div 10"] by (simp add: less_mult_imp_div_less)
  have b: "(of_char (digit_char (n mod 10)) :: nat) - 48 = n mod 10"
    using of_char_digit_char [of "n mod 10"] by simp
  have "foldl (\<lambda>a c. 10 * a + (of_char c - 48)) (0::nat)
     (digits (n div 100) @ [digit_char (n mod 100 div 10), digit_char (n mod 10)]) =
     10 * (10 * (n div 100) + n mod 100 div 10) + n mod 10"
    by (simp only: foldl_append foldl.simps digits_read_back a b)
  then show ?thesis
    by (simp only: two_digit_split)
qed

lemma format_2f_reads_back:
  "\<exists>ds d1 d2.
     format_2f x = (if x < 0 then ''-'' else []) @ ds @ ''.'' @ [d1, d2] \<and>
     ds \<noteq> [] \<and> set (ds @ [d1, d2]) \<subseteq> set ''0123456789'' \<and>
     \<bar>of_nat (foldl (\<lambda>a c. 10 * a + (of_char c - 48)) (0::nat) (ds @ [d1, d2])) / 100 - \<bar>x\<bar>\<bar>
       \<le> 1 / 200"
proof -
  define n where "n = nat (round_half_even (\<bar>x\<bar> * 100))"
  have nn: "0 \<le> round_half_even (\<bar>x\<bar> * 100)"
    by (rule round_half_even_nonneg) simp
  then have n_real: "(of_nat n :: rat) = of_int (round_half_even (\<bar>x\<bar> * 100))"
    by (simp add: n_def)
  have "\<bar>of_int (round_half_even (\<bar>x\<bar> * 100)) - \<bar>x\<bar> * 100\<bar> \<le> 1 / 2"
    by (rule round_half_even_close)
  then have close: "\<bar>of_nat n / 100 - \<bar>x\<bar>\<bar> \<le> 1 / 200"
    unfolding n_real by (simp add: abs_le_iff field_simps)
  have d1: "digit_char (n mod 100 div 10) \<in> set ''0123456789''"
    by (rule digit_char_in_digits) (simp add: less_mult_imp_div_less)
  have d2: "digit_char (n mod 10) \<in> set ''0123456789''"
    by (rule digit_char_in_digits) simp
  have eq: "format_2f x = (if x < 0 then ''-'' else []) @ digits (n div 100) @ ''.'' @
              [digit_char (n mod 100 div 10), digit_char (n mod 10)]"
    by (simp add: format_2f_def n_def Let_def)
  have ds: "set (digits (n div 100) @ [digit_char (n mod 100 div 10), digit_char (n mod 10)])
              \<subseteq> set ''0123456789''"
    using d1 d2 digits_all_decimal [of "n div 100"] by simp
  have rb: "\<bar>of_nat (foldl (\<lambda>a c. 10 * a + (of_char c - 48)) (0::nat)
              (digits (n div 100) @ [digit_char (n mod 100 div 10), digit_char (n mod 10)]))
              / 100 - \<bar>x\<bar>\<bar> \<le> 1 / 200"
    using close by (simp only: two_decimals_read_back)
  show ?thesis
    using eq digits_not_Nil [of "n div 100"] ds rb by blast
qed

lemma label_or_fallback_returns:
  "\<exists>v logs. get_japanese_label lf class_id = (Inr v, logs) \<and>
     label_or_fallback lf class_id nm =
       (Inr (py_or v (PStr (py_replace (CHR ''_'') (CHR '' '') nm))), logs)"
  using get_japanese_label_returns [of lf class_id]
  by (auto simp: label_or_fallback_def)

lemma format_entry_returns:
  "\<exists>v logs. get_japanese_label lf class_id = (Inr v, logs) \<and>
     format_entry mul lf (class_id, nm, prob) =
       (Inr \<lparr>pred_name = py_or v (PStr (py_replace (CHR ''_'') (CHR '' '') nm)),
             pred_prob = format_2f (mul prob 100) @ ''%'',
             pred_raw_prob = mul prob 100,
             pred_class_id = class_id\<rparr>, logs)"
  using label_or_fallback_returns [of lf class_id nm]
  by auto

lemma format_loop_entries:
  "\<exists>ps logs. format_loop mul lf results acc = (Inr (acc @ ps), logs) \<and>
      list_all2 (\<lambda>r p. \<exists>l. format_entry mul lf r = (Inr p, l)) results ps"
proof (induction results arbitrary: acc)
  case Nil
  then show ?case by simp
next
  case (Cons r rest)
  obtain c n pr where r: "r = (c, n, pr)" by (cases r) auto
  obtain p l where p: "format_entry mul lf r = (Inr p, l)"
    using format_entry_returns [of lf c mul n pr] r by auto
  obtain ps logs where ps: "format_loop mul lf rest (acc @ [p]) = (Inr ((acc @ [p]) @ ps), logs)"
      "list_all2 (\<lambda>r p. \<exists>l. format_entry mul lf r = (Inr p, l)) rest ps"
    using Cons.IH [of "acc @ [p]"] by auto
  have "format_loop mul lf (r # rest) acc = (Inr (acc @ (p # ps)), l @ logs)"
    using p ps(1) by simp
  moreover have "list_all2 (\<lambda>r p. \<exists>l. format_entry mul lf r = (Inr p, l)) (r # rest) (p # ps)"
    using p ps(2) by auto
  ultimately show ?case by blast
qed

lemma format_predictions_entries:
  "\<exists>ps logs. format_predictions mul lf results = (Inr ps, logs) \<and>
      list_all2 (\<lambda>r p. \<exists>l. format_entry mul lf r = (Inr p, l)) results ps"
  using format_loop_entries [of mul lf results "[]"]
  by (simp add: format_predictions_def)

lemma format_entry_fields:
  assumes "format_entry mul lf r = (Inr p, l)"
  shows "pred_class_id p = fst r \<and>
         pred_raw_prob p = mul (snd (snd r)) 100 \<and>
         pred_prob p = format_2f (mul (snd (snd r)) 100) @ ''%'' \<and>
         (\<exists>v. fst (get_japanese_label lf (fst r)) = Inr v \<and>
              pred_name p = py_or v (PStr (py_replace (CHR ''_'') (CHR '' '') (fst (snd r)))))"
proof -
  obtain c n pr where r: "r = (c, n, pr)" by (cases r) auto
  show ?thesis
    using assms format_entry_returns [of lf c mul n pr] unfolding r by auto
qed

lemma entries_maps:
  assumes "list_all2 (\<lambda>r p. \<exists>l. format_entry mul lf r = (Inr p, l)) results ps"
  shows "map pred_class_id ps = map fst results \<and>
         map pred_raw_prob ps = map (\<lambda>r. mul (snd (snd r)) 100) results \<and>
         map pred_prob ps = map (\<lambda>r. format_2f (mul (snd (snd r)) 100) @ ''%'') results"
  using assms
proof (induction rule: list_all2_induct)
  case Nil
  then show ?case by simp
next
  case (Cons r rs p ps)
  then obtain l where "format_entry mul lf r = (Inr p, l)" by auto
  then show ?case
    using format_entry_fields [of mul lf r p l] Cons.IH by simp
qed

lemma format_entry_logs:
  assumes "format_entry mul lf r = (Inr p, l)"
  shows "l = snd (get_japanese_label lf (fst r))"
proof -
  obtain c n pr where r: "r = (c, n, pr)" by (cases r) auto
  show ?thesis
    using assms format_entry_returns [of lf c mul n pr] unfolding r by auto
qed

lemma format_loop_logs:
  "\<exists>ps. format_loop mul lf results acc =
           (Inr (acc @ ps), concat (map (\<lambda>r. snd (get_japanese_label lf (fst r))) results)) \<and>
      list_all2 (\<lambda>r p. \<exists>l. format_entry mul lf r = (Inr p, l)) results ps"
proof (induction results arbitrary: acc)
  case Nil
  then show ?case by simp
next
  case (Cons r rest)
  obtain c n pr where r: "r = (c, n, pr)" by (cases r) auto
  obtain p l where p: "format_entry mul lf r = (Inr p, l)"
    using format_entry_returns [of lf c mul n pr] r by auto
  have l: "l = snd (get_japanese_label lf (fst r))"
    using p by (rule format_entry_logs)
  obtain ps where ps: "format_loop mul lf rest (acc @ [p]) =
        (Inr ((acc @ [p]) @ ps), concat (map (\<lambda>r. snd (get_japanese_label lf (fst r))) rest))"
      "list_all2 (\<lambda>r p. \<exists>l. format_entry mul lf r = (Inr p, l)) rest ps"
    using Cons.IH [of "acc @ [p]"] by auto
  have "format_loop mul lf (r # rest) acc =
      (Inr (acc @ (p # ps)), concat (map (\<lambda>r. snd (get_japanese_label lf (fst r))) (r # rest)))"
    using p ps(1) l by simp
  moreover have "list_all2 (\<lambda>r p. \<exists>l. format_entry mul lf r = (Inr p, l)) (r # rest) (p # ps)"
    using p ps(2) by auto
  ultimately show ?case by blast
qed

lemma close_product_example:
  fixes mul :: "rat \<Rightarrow> rat \<Rightarrow> rat"
  assumes "\<forall>a. 0 \<le> a \<and> a \<le> 1 \<longrightarrow> \<bar>mul a 100 - a * 100\<bar> \<le> 1 / 100000"
  shows "\<bar>mul (9550234 / 10000000) 100 - 9550234 / 100000\<bar> \<le> 1 / 100000"
proof -
  have "0 \<le> (9550234 / 10000000 :: rat) \<and> (9550234 / 10000000 :: rat) \<le> 1"
    by simp
  then have "\<bar>mul (9550234 / 10000000) 100 - 9550234 / 10000000 * 100\<bar> \<le> 1 / 100000"
    using assms by blast
  moreover have "(9550234 / 10000000 * 100 :: rat) = 9550234 / 100000"
    by simp
  ultimately show ?thesis
    by (simp only:)
qed

text \<open>
  C5, as the code has it. Let the float product by 100 be within 0.00001 of the exact
  product on [0, 1]. \<open>format_predictions\<close> returns one entry per entry of the ranked
  list, in the same order. Entry \<open>i\<close> carries the class id of the \<open>i\<close>-th input entry,
  the product \<open>prob * 100\<close> as raw value, and as probability string that product with
  exactly two decimals and a trailing \<open>%\<close>: an optional minus sign, at least one digit,
  a point and two digits, which read as a decimal number lie within 0.005 of the
  product. The raw probability 0.9550234 is rendered \<open>95.50%\<close>. The operation is not a
  pure transform: the name of each entry is the result of the label lookup, which reads
  the reference file during the call, or the fallback label when that result is false,
  and the log lines of the lookups, one lookup per entry, are emitted in order.
\<close>

theorem format_predictions_order_and_percent:
  fixes mul :: "rat \<Rightarrow> rat \<Rightarrow> rat"
  assumes "\<forall>a. 0 \<le> a \<and> a \<le> 1 \<longrightarrow> \<bar>mul a 100 - a * 100\<bar> \<le> 1 / 100000"
  shows "\<exists>ps.
     format_predictions mul lf results =
       (Inr ps, concat (map (\<lambda>r. snd (get_japanese_label lf (fst r))) results)) \<and>
     length ps = length results \<and>
     (\<forall>i < length results.
        case results ! i of (class_id, nm, prob) \<Rightarrow>
          pred_class_id (ps ! i) = class_id \<and>
          pred_raw_prob (ps ! i) = mul prob 100 \<and>
          (0 \<le> prob \<and> prob \<le> 1 \<longrightarrow> \<bar>pred_raw_prob (ps ! i) - prob * 100\<bar> \<le> 1 / 100000) \<and>
          (\<exists>ds d1 d2.
             pred_prob (ps ! i) =
               (if mul prob 100 < 0 then ''-'' else []) @ ds @ ''.'' @ [d1, d2] @ ''%'' \<and>
             ds \<noteq> [] \<and> set (ds @ [d1, d2]) \<subseteq> set ''0123456789'' \<and>
             \<bar>of_nat (foldl (\<lambda>a c. 10 * a + (of_char c - 48)) (0::nat) (ds @ [d1, d2])) / 100
                - \<bar>mul prob 100\<bar>\<bar> \<le> 1 / 200) \<and>
          (prob = 9550234 / 10000000 \<longrightarrow> pred_prob (ps ! i) = ''95.50%'') \<and>
          (\<exists>v. fst (get_japanese_label lf class_id) = Inr v \<and>
             pred_name (ps ! i) = py_or v (PStr (py_replace (CHR ''_'') (CHR '' '') nm))))"
proof -
  obtain ps where ps: "format_predictions mul lf results =
       (Inr ps, concat (map (\<lambda>r. snd (get_japanese_label lf (fst r))) results))"
      "list_all2 (\<lambda>r p. \<exists>l. format_entry mul lf r = (Inr p, l)) results ps"
    using format_loop_logs [of mul lf results "[]"] by (auto simp: format_predictions_def)
  have len: "length ps = length results"
    using ps(2) by (simp add: list_all2_lengthD)
  have each: "case results ! i of (class_id, nm, prob) \<Rightarrow>
          pred_class_id (ps ! i) = class_id \<and>
          pred_raw_prob (ps ! i) = mul prob 100 \<and>
          (0 \<le> prob \<and> prob \<le> 1 \<longrightarrow> \<bar>pred_raw_prob (ps ! i) - prob * 100\<bar> \<le> 1 / 100000) \<and>
          (\<exists>ds d1 d2.
             pred_prob (ps ! i) =
               (if mul prob 100 < 0 then ''-'' else []) @ ds @ ''.'' @ [d1, d2] @ ''%'' \<and>
             ds \<noteq> [] \<and> set (ds @ [d1, d2]) \<subseteq> set ''0123456789'' \<and>
             \<bar>of_nat (foldl (\<lambda>a c. 10 * a + (of_char c - 48)) (0::nat) (ds @ [d1, d2])) / 100
                - \<bar>mul prob 100\<bar>\<bar> \<le> 1 / 200) \<and>
          (prob = 9550234 / 10000000 \<longrightarrow> pred_prob (ps ! i) = ''95.50%'') \<and>
          (\<exists>v. fst (get_japanese_label lf class_id) = Inr v \<and>
             pred_name (ps ! i) = py_or v (PStr (py_replace (CHR ''_'') (CHR '' '') nm)))"
    if i: "i < length results" for i
  proof -
    obtain c n p where r: "results ! i = (c, n, p)" by (cases "results ! i") auto
    obtain l where "format_entry mul lf (results ! i) = (Inr (ps ! i), l)"
      using list_all2_nthD [OF ps(2) i] by auto
    then have f: "pred_class_id (ps ! i) = c" "pred_raw_prob (ps ! i) = mul p 100"
        "pred_prob (ps ! i) = format_2f (mul p 100) @ ''%''"
        "\<exists>v. fst (get_japanese_label lf c) = Inr v \<and>
              pred_name (ps ! i) = py_or v (PStr (py_replace (CHR ''_'') (CHR '' '') n))"
      using format_entry_fields [of mul lf "results ! i" "ps ! i" l] r by auto
    have close: "0 \<le> p \<and> p \<le> 1 \<longrightarrow> \<bar>pred_raw_prob (ps ! i) - p * 100\<bar> \<le> 1 / 100000"
      using assms f(2) by simp
    have shape: "\<exists>ds d1 d2.
             pred_prob (ps ! i) =
               (if mul p 100 < 0 then ''-'' else []) @ ds @ ''.'' @ [d1, d2] @ ''%'' \<and>
             ds \<noteq> [] \<and> set (ds @ [d1, d2]) \<subseteq> set ''0123456789'' \<and>
             \<bar>of_nat (foldl (\<lambda>a c. 10 * a + (of_char c - 48)) (0::nat) (ds @ [d1, d2])) / 100
                - \<bar>mul p 100\<bar>\<bar> \<le> 1 / 200"
      using format_2f_reads_back [of "mul p 100"] unfolding f(3) by auto
    have ex: "p = 9550234 / 10000000 \<longrightarrow> pred_prob (ps ! i) = ''95.50%''"
    proof
      assume p: "p = 9550234 / 10000000"
      have "\<bar>mul p 100 - 9550234 / 100000\<bar> \<le> 1 / 100000"
        using close_product_example [of mul] assms unfolding p by blast
      then have "\<bar>mul p 100 - 9550234 / 100000\<bar> \<le> 1 / 1000"
        by linarith
      then show "pred_prob (ps ! i) = ''95.50%''"
        unfolding f(3) by (rule format_2f_example)
    qed
    show ?thesis
      unfolding r using f(1,2,4) close shape ex by simp
  qed
  show ?thesis
    using ps(1) len each by blast
qed

theorem format_predictions_order_and_percent_witness:
  "(\<lambda>a. \<bar>a * 100 - a * 100\<bar>) ` {0 .. 1 :: rat} \<subseteq> {.. 1 / 100000} \<and>
   (\<exists>ps.
      format_predictions (*)
        (FileJSON (PList [PDict [(''num'', PStr ''n02099601''), (''ja'', PStr ''inu'')]]))
        [(''n02099601'', ''golden_retriever'', 9550234 / 10000000), (''n02123045'', ''tabby_cat'', 1 / 8)] = (Inr ps, []) \<and>
      length ps = 2 \<and>
      pred_class_id (ps ! 0) = ''n02099601'' \<and>
      pred_raw_prob (ps ! 0) = 9550234 / 100000 \<and>
      pred_prob (ps ! 0) = ''95.50%'' \<and>
      pred_name (ps ! 0) = PStr ''inu'' \<and>
      pred_class_id (ps ! 1) = ''n02123045'' \<and>
      pred_name (ps ! 1) = PStr ''tabby cat'')"
proof -
  let ?lf = "(FileJSON (PList [PDict [(''num'', PStr ''n02099601''), (''ja'', PStr ''inu'')]]))"
  let ?rs = "[(''n02099601'', ''golden_retriever'', 9550234 / 10000000),
              (''n02123045'', ''tabby_cat'', 1 / 8)] :: result list"
  have prod: "\<forall>a::rat. 0 \<le> a \<and> a \<le> 1 \<longrightarrow> \<bar>a * 100 - a * 100\<bar> \<le> 1 / 100000"
    by simp
  have img: "(\<lambda>a. \<bar>a * 100 - a * 100\<bar>) ` {0 .. 1 :: rat} \<subseteq> {.. 1 / 100000}"
    by auto
  have look: "get_japanese_label ?lf ''n02099601'' = (Inr (PStr ''inu''), [])"
    "get_japanese_label ?lf ''n02123045'' = (Inr PNone, [])"
    by (simp_all add: get_japanese_label_def get_japanese_label_try_def)
  from format_predictions_order_and_percent [of "(*)" ?lf ?rs, OF prod]
  obtain ps where all:
    "format_predictions (*) ?lf ?rs =
       (Inr ps, concat (map (\<lambda>r. snd (get_japanese_label ?lf (fst r))) ?rs)) \<and>
    length ps = length ?rs \<and>
    (\<forall>i < length ?rs.
        case ?rs ! i of (class_id, nm, prob) \<Rightarrow>
          pred_class_id (ps ! i) = class_id \<and>
          pred_raw_prob (ps ! i) = prob * 100 \<and>
          (0 \<le> prob \<and> prob \<le> 1 \<longrightarrow> \<bar>pred_raw_prob (ps ! i) - prob * 100\<bar> \<le> 1 / 100000) \<and>
          (\<exists>ds d1 d2.
             pred_prob (ps ! i) =
               (if prob * 100 < 0 then ''-'' else []) @ ds @ ''.'' @ [d1, d2] @ ''%'' \<and>
             ds \<noteq> [] \<and> set (ds @ [d1, d2]) \<subseteq> set ''0123456789'' \<and>
             \<bar>of_nat (foldl (\<lambda>a c. 10 * a + (of_char c - 48)) (0::nat) (ds @ [d1, d2])) / 100
                - \<bar>prob * 100\<bar>\<bar> \<le> 1 / 200) \<and>
          (prob = 9550234 / 10000000 \<longrightarrow> pred_prob (ps ! i) = ''95.50%'') \<and>
          (\<exists>v. fst (get_japanese_label ?lf class_id) = Inr v \<and>
             pred_name (ps ! i) = py_or v (PStr (py_replace (CHR ''_'') (CHR '' '') nm))))" ..
  note ps = all [THEN conjunct1] all [THEN conjunct2, THEN conjunct1]
    all [THEN conjunct2, THEN conjunct2]
  have logs: "concat (map (\<lambda>r. snd (get_japanese_label ?lf (fst r))) ?rs) = []"
    by (simp add: look)
  have e0: "pred_class_id (ps ! 0) = ''n02099601''" "pred_raw_prob (ps ! 0) = 9550234 / 100000"
    "pred_prob (ps ! 0) = ''95.50%''" "pred_name (ps ! 0) = PStr ''inu''"
    using ps(3) [rule_format, of 0] by (simp_all add: look py_or_def)
  have e1: "pred_class_id (ps ! 1) = ''n02123045''" "pred_name (ps ! 1) = PStr ''tabby cat''"
    using ps(3) [rule_format, of 1] by (simp_all add: look py_or_def py_replace_def)
  show ?thesis
    using img ps(1,2) logs e0 e1 by auto
qed

text \<open>
  The claim as stated fails: the same ranked list is formatted differently under two
  states of the reference file, and with the file missing the call logs an error.
\<close>

theorem format_predictions_reads_label_file:
  "format_predictions (*) FileMissing [(''n02099601'', ''golden_retriever'', 1 / 2)] \<noteq>
   format_predictions (*)
       (FileJSON (PList [PDict [(''num'', PStr ''n02099601''), (''ja'', PStr ''inu'')]]))
       [(''n02099601'', ''golden_retriever'', 1 / 2)] \<and>
   format_predictions (*) FileMissing [(''n02099601'', ''golden_retriever'', 1 / 2)] =
     (Inr [\<lparr>pred_name = PStr ''golden retriever'', pred_prob = ''50.00%'',
            pred_raw_prob = 50, pred_class_id = ''n02099601''\<rparr>],
      [ErrLabelFileNotFound]) \<and>
   format_predictions (*)
       (FileJSON (PList [PDict [(''num'', PStr ''n02099601''), (''ja'', PStr ''inu'')]]))
       [(''n02099601'', ''golden_retriever'', 1 / 2)] =
     (Inr [\<lparr>pred_name = PStr ''inu'', pred_prob = ''50.00%'',
            pred_raw_prob = 50, pred_class_id = ''n02099601''\<rparr>],
      [])"
  by (simp add: format_predictions_def label_or_fallback_def get_japanese_label_def
      get_japanese_label_try_def py_or_def py_replace_def format_2f_def round_half_even_def
      digits.simps [of 50] digits.simps [of 5] digit_char_def)

section \<open>Saving\<close>

lemma scan_items_first_match:
  assumes "\<forall>item \<in> set pre. \<exists>kvs'. item = PDict kvs' \<and> map_of kvs' ''num'' \<noteq> Some (PStr class_id)"
    and "map_of kvs ''num'' = Some (PStr class_id)"
  shows "scan_items (pre @ PDict kvs # post) class_id =
           Inr (case map_of kvs ''ja'' of None \<Rightarrow> PNone | Some v \<Rightarrow> v)"
  using assms
proof (induction pre)
  case Nil
  then show ?case by simp
next
  case (Cons item rest)
  then obtain kvs' where "item = PDict kvs'" "map_of kvs' ''num'' \<noteq> Some (PStr class_id)"
    by auto
  then show ?case
    using Cons by (auto split: option.splits)
qed

lemma save_analysis_result_up:
  assumes "db_up w" "get_japanese_label (labels w) class_id = (Inr v, logs)"
  shows "\<exists>w'. save_analysis_result e file ((class_id, nm, prob) # rest) t w =
           (Some \<lparr>pk = Some (next_pk w),
                  image_name = storage_name e file,
                  original_filename = name file,
                  prediction_label = py_or v (PStr (py_replace (CHR ''_'') (CHR '' '') nm)),
                  prediction_score = py_round2 (fmul e prob 100),
                  processing_time = t,
                  model_version = ''EfficientNetB0-v1.0''\<rparr>, w') \<and>
         table w' = table w @
           [\<lparr>pk = Some (next_pk w),
                  image_name = storage_name e file,
                  original_filename = name file,
                  prediction_label = py_or v (PStr (py_replace (CHR ''_'') (CHR '' '') nm)),
                  prediction_score = py_round2 (fmul e prob 100),
                  processing_time = t,
                  model_version = ''EfficientNetB0-v1.0''\<rparr>]"
  using assms
  by (simp add: save_analysis_result_def save_analysis_result_try_def label_or_fallback_def
      model_save_def add_log_def Let_def)

lemma save_analysis_result_down:
  assumes "\<not> db_up w"
  shows "\<exists>w'. save_analysis_result e file results t w = (None, w') \<and>
           table w' = table w \<and> media w' = media w \<and> next_pk w' = next_pk w \<and>
           (\<exists>ex. ErrDatabaseSave ex \<in> set (app_log w'))"
proof (cases results)
  case Nil
  then show ?thesis
    by (auto simp: save_analysis_result_def save_analysis_result_try_def add_log_def)
next
  case (Cons r rest)
  obtain c n p where r: "r = (c, n, p)" by (cases r) auto
  obtain v logs where v: "get_japanese_label (labels w) c = (Inr v, logs)"
    using get_japanese_label_returns by blast
  show ?thesis
    using assms v unfolding Cons r
    by (auto simp: save_analysis_result_def save_analysis_result_try_def label_or_fallback_def
        model_save_def add_log_def)
qed

lemma format_predictions_nth_name:
  assumes "i < length results" "results ! i = (class_id, nm, prob)"
    and "fst (get_japanese_label lf class_id) = Inr v"
  shows "\<exists>ps logs. format_predictions mul lf results = (Inr ps, logs) \<and>
           pred_name (ps ! i) = py_or v (PStr (py_replace (CHR ''_'') (CHR '' '') nm))"
proof -
  obtain ps logs where ps: "format_predictions mul lf results = (Inr ps, logs)"
      "list_all2 (\<lambda>r p. \<exists>l. format_entry mul lf r = (Inr p, l)) results ps"
    using format_predictions_entries [of mul lf results] by auto
  obtain l where "format_entry mul lf (results ! i) = (Inr (ps ! i), l)"
    using list_all2_nthD [OF ps(2) assms(1)] by auto
  then have "pred_name (ps ! i) = py_or v (PStr (py_replace (CHR ''_'') (CHR '' '') nm))"
    using format_entry_fields [of mul lf "results ! i" "ps ! i" l] assms(2,3) by auto
  then show ?thesis using ps(1) by blast
qed

text \<open>
  C9. The fallback label, the native label with underscores replaced by spaces, is used
  whenever the lookup returns a false value, not only \<open>None\<close>: the entry of
  \<open>format_predictions\<close> for such a class id carries the fallback as its name, and
  \<open>save_analysis_result\<close> stores the fallback as \<open>prediction_label\<close>. A table whose first
  entry for the class id has the empty string as \<open>ja\<close> makes the lookup return the
  empty string, which is false.
\<close>

theorem fallback_label_on_falsy:
  "(i < length results \<and> results ! i = (class_id, nm, prob) \<and>
    fst (get_japanese_label lf class_id) = Inr v \<and> \<not> truthy v \<longrightarrow>
      (\<exists>ps logs. format_predictions mul lf results = (Inr ps, logs) \<and>
         pred_name (ps ! i) = PStr (py_replace (CHR ''_'') (CHR '' '') nm))) \<and>
   (db_up w \<and> fst (get_japanese_label (labels w) class_id) = Inr v \<and> \<not> truthy v \<longrightarrow>
      (\<exists>inst w'. save_analysis_result e upload ((class_id, nm, prob) # rest) t w = (Some inst, w') \<and>
         prediction_label inst = PStr (py_replace (CHR ''_'') (CHR '' '') nm) \<and>
         inst \<in> set (table w'))) \<and>
   ((\<forall>item \<in> set pre. \<exists>kvs'. item = PDict kvs' \<and> map_of kvs' ''num'' \<noteq> Some (PStr class_id)) \<and>
    map_of kvs ''num'' = Some (PStr class_id) \<and> map_of kvs ''ja'' = Some (PStr []) \<longrightarrow>
      fst (get_japanese_label (FileJSON (PList (pre @ PDict kvs # post))) class_id) = Inr (PStr []) \<and>
      \<not> truthy (PStr []))"
proof (intro conjI impI)
  assume a: "i < length results \<and> results ! i = (class_id, nm, prob) \<and>
    fst (get_japanese_label lf class_id) = Inr v \<and> \<not> truthy v"
  then show "\<exists>ps logs. format_predictions mul lf results = (Inr ps, logs) \<and>
         pred_name (ps ! i) = PStr (py_replace (CHR ''_'') (CHR '' '') nm)"
    using format_predictions_nth_name [of i results class_id nm prob lf v mul]
    by (simp add: py_or_def)
next
  assume a: "db_up w \<and> fst (get_japanese_label (labels w) class_id) = Inr v \<and> \<not> truthy v"
  then obtain logs where "get_japanese_label (labels w) class_id = (Inr v, logs)"
    by (cases "get_japanese_label (labels w) class_id") auto
  then show "\<exists>inst w'. save_analysis_result e upload ((class_id, nm, prob) # rest) t w = (Some inst, w') \<and>
         prediction_label inst = PStr (py_replace (CHR ''_'') (CHR '' '') nm) \<and>
         inst \<in> set (table w')"
    using a save_analysis_result_up [of w class_id v logs e upload nm prob rest t]
    by (auto simp: py_or_def)
next
  assume a: "(\<forall>item \<in> set pre. \<exists>kvs'. item = PDict kvs' \<and> map_of kvs' ''num'' \<noteq> Some (PStr class_id)) \<and>
    map_of kvs ''num'' = Some (PStr class_id) \<and> map_of kvs ''ja'' = Some (PStr [])"
  then have "scan_items (pre @ PDict kvs # post) class_id = Inr (PStr [])"
    using scan_items_first_match [of pre class_id kvs post] by simp
  then show "fst (get_japanese_label (FileJSON (PList (pre @ PDict kvs # post))) class_id) = Inr (PStr [])"
    by (simp add: get_japanese_label_def get_japanese_label_try_def)
next
  show "\<not> truthy (PStr [])" by simp
qed


theorem fallback_label_on_falsy_witness:
  "fst (get_japanese_label
          (FileJSON (PList [PDict [(''num'', PStr ''n02099601''), (''ja'', PStr [])]]))
          ''n02099601'') = Inr (PStr []) \<and>
   \<not> truthy (PStr []) \<and>
   (\<exists>ps logs.
      format_predictions (*)
        (FileJSON (PList [PDict [(''num'', PStr ''n02099601''), (''ja'', PStr [])]]))
        [(''n02099601'', ''golden_retriever'', 1 / 2)] = (Inr ps, logs) \<and>
      pred_name (ps ! 0) = PStr ''golden retriever'') \<and>
   (\<exists>inst w'.
      save_analysis_result
        \<lparr>fmul = (*), cv2_imdecode = (\<lambda>b. Inr (Some b)), resize_and_preprocess = (\<lambda>b. Inr b),
         model_predict = (\<lambda>b. Inr []), elapsed = 1 / 4,
         storage_name = (\<lambda>u. ''uploads/'' @ name u)\<rparr>
        \<lparr>name = ''dog.png'', file_size = 3, content = [1, 2, 3]\<rparr>
        [(''n02099601'', ''golden_retriever'', 1 / 2)] (1 / 4)
        \<lparr>labels = FileJSON (PList [PDict [(''num'', PStr ''n02099601''), (''ja'', PStr [])]]),
         db_up = True, table = [], next_pk = 1, media = [], app_log = []\<rparr> = (Some inst, w') \<and>
      prediction_label inst = PStr ''golden retriever'' \<and> inst \<in> set (table w'))"
proof -
  have look: "fst (get_japanese_label
          (FileJSON (PList [PDict [(''num'', PStr ''n02099601''), (''ja'', PStr [])]]))
          ''n02099601'') = Inr (PStr [])"
    by (simp add: get_japanese_label_def get_japanese_label_try_def)
  have rep: "py_replace (CHR ''_'') (CHR '' '') ''golden_retriever'' = ''golden retriever''"
    by (simp add: py_replace_def)
  show ?thesis
    using look rep
      fallback_label_on_falsy
        [where i = 0 and results = "[(''n02099601'', ''golden_retriever'', 1 / 2)]"
           and class_id = "''n02099601''" and nm = "''golden_retriever''" and prob = "1 / 2"
           and lf = "FileJSON (PList [PDict [(''num'', PStr ''n02099601''), (''ja'', PStr [])]])"
           and v = "PStr []" and mul = "(*)"
           and w = "\<lparr>labels = FileJSON (PList [PDict [(''num'', PStr ''n02099601''), (''ja'', PStr [])]]),
                     db_up = True, table = [], next_pk = 1, media = [], app_log = []\<rparr>"
           and e = "\<lparr>fmul = (*), cv2_imdecode = (\<lambda>b. Inr (Some b)),
                     resize_and_preprocess = (\<lambda>b. Inr b),
                     model_predict = (\<lambda>b. Inr []), elapsed = 1 / 4,
                     storage_name = (\<lambda>u. ''uploads/'' @ name u)\<rparr>"
           and upload = "\<lparr>name = ''dog.png'', file_size = 3, content = [1, 2, 3]\<rparr>"
           and rest = "[]" and t = "1 / 4"
           and pre = "[]" and kvs = "[(''num'', PStr ''n02099601''), (''ja'', PStr [])]"
           and post = "[]"]
    by simp
qed







section \<open>The upload request\<close>

lemma add_log_fields:
  "table (add_log l w) = table w" "media (add_log l w) = media w"
  "next_pk (add_log l w) = next_pk w" "db_up (add_log l w) = db_up w"
  "labels (add_log l w) = labels w"
  by (simp_all add: add_log_def)

text \<open>
  C6. When the \<open>try\<close> block of \<open>save_analysis_result\<close> raises, the function returns
  \<open>None\<close> and logs the error. For a POST whose file passes validation, decoding and
  inference while the database is down, \<open>index\<close> still returns normally: the response
  carries the formatted predictions, one per entry of the ranked list and in its order,
  no image reference, and the single message that the result could not be saved; no
  row is added.
\<close>

theorem persistence_failure_is_not_fatal:
  "(fst (save_analysis_result_try e upload results t w0) = Inl ex \<longrightarrow>
      fst (save_analysis_result e upload results t w0) = None \<and>
      ErrDatabaseSave ex \<in> set (app_log (snd (save_analysis_result e upload results t w0)))) \<and>
   (fst (validate_image_file (Some upload)) = True \<and>
    fst (preprocess_image e upload) = Some x \<and>
    fst (perform_prediction e x) = Some results \<and>
    \<not> db_up w \<longrightarrow>
      (\<exists>ps logs w'. format_predictions (fmul e) (labels w) results = (Inr ps, logs) \<and>
         map pred_class_id ps = map fst results \<and>
         index e POST (Some upload) w =
           (Inr (RenderIndex (Some ps) None, [WarningNotSaved]), w') \<and>
         table w' = table w))"
proof (intro conjI impI)
  assume "fst (save_analysis_result_try e upload results t w0) = Inl ex"
  then obtain w1 where "save_analysis_result_try e upload results t w0 = (Inl ex, w1)"
    by (cases "save_analysis_result_try e upload results t w0") auto
  then have "save_analysis_result e upload results t w0 = (None, add_log [ErrDatabaseSave ex] w1)"
    by (simp add: save_analysis_result_def)
  then show "fst (save_analysis_result e upload results t w0) = None"
    and "ErrDatabaseSave ex \<in> set (app_log (snd (save_analysis_result e upload results t w0)))"
    by (simp_all add: add_log_def)
next
  assume a: "fst (validate_image_file (Some upload)) = True \<and>
    fst (preprocess_image e upload) = Some x \<and>
    fst (perform_prediction e x) = Some results \<and> \<not> db_up w"
  obtain msg where v: "validate_image_file (Some upload) = (True, msg)"
    using a by (cases "validate_image_file (Some upload)") auto
  obtain l1 where p1: "preprocess_image e upload = (Some x, l1)"
    using a by (cases "preprocess_image e upload") auto
  obtain l2 where p2: "perform_prediction e x = (Some results, l2)"
    using a by (cases "perform_prediction e x") auto
  obtain ps l3 where f: "format_predictions (fmul e) (labels w) results = (Inr ps, l3)"
      "list_all2 (\<lambda>r p. \<exists>l. format_entry (fmul e) (labels w) r = (Inr p, l)) results ps"
    using format_predictions_entries [of "fmul e" "labels w" results] by auto
  have down: "\<not> db_up (add_log (l1 @ l2 @ l3) w)"
    using a by (simp add: add_log_fields)
  obtain w' where s: "save_analysis_result e upload results (elapsed e) (add_log (l1 @ l2 @ l3) w) = (None, w')"
      "table w' = table w" "media w' = media w"
    using save_analysis_result_down [OF down, of e upload results "elapsed e"]
    by (auto simp: add_log_fields)
  have "index e POST (Some upload) w = (Inr (RenderIndex (Some ps) None, [WarningNotSaved]), w')"
    by (simp add: index_def v p1 p2 f(1) s(1))
  then show "\<exists>ps logs w'. format_predictions (fmul e) (labels w) results = (Inr ps, logs) \<and>
         map pred_class_id ps = map fst results \<and>
         index e POST (Some upload) w =
           (Inr (RenderIndex (Some ps) None, [WarningNotSaved]), w') \<and>
         table w' = table w"
    using f(1) entries_maps [OF f(2)] s(2) by blast
qed

text \<open>
  C7. A POST that fails at validation, at decoding (or preprocessing) or at inference
  gets the index page without predictions and with exactly one error message, and leaves
  the table, the stored files and the key counter as they were. Conversely, whenever a
  request changes the table, it was a POST with a file that passed validation and
  decoding and whose inference returned a result list.
\<close>

theorem no_record_without_inference:
  "(fst (validate_image_file file_opt) = False \<or>
    (\<exists>u. file_opt = Some u \<and>
       (fst (preprocess_image e u) = None \<or>
        (\<exists>x. fst (preprocess_image e u) = Some x \<and> fst (perform_prediction e x) = None)))
    \<longrightarrow>
      (\<exists>m w'. index e POST file_opt w = (Inr (RenderIndex None None, [m]), w') \<and>
         (m = ErrorValidation (snd (validate_image_file file_opt)) \<or> m = ErrorImageLoad \<or>
          m = ErrorAnalysis) \<and>
         table w' = table w \<and> media w' = media w \<and> next_pk w' = next_pk w)) \<and>
   (table (snd (index e verb file_opt w)) \<noteq> table w \<longrightarrow>
      (\<exists>u x results. verb = POST \<and> file_opt = Some u \<and>
         fst (validate_image_file file_opt) = True \<and>
         fst (preprocess_image e u) = Some x \<and>
         fst (perform_prediction e x) = Some results))"
proof (intro conjI impI)
  assume a: "fst (validate_image_file file_opt) = False \<or>
    (\<exists>u. file_opt = Some u \<and>
       (fst (preprocess_image e u) = None \<or>
        (\<exists>x. fst (preprocess_image e u) = Some x \<and> fst (perform_prediction e x) = None)))"
  show "\<exists>m w'. index e POST file_opt w = (Inr (RenderIndex None None, [m]), w') \<and>
         (m = ErrorValidation (snd (validate_image_file file_opt)) \<or> m = ErrorImageLoad \<or>
          m = ErrorAnalysis) \<and>
         table w' = table w \<and> media w' = media w \<and> next_pk w' = next_pk w"
  proof (cases "fst (validate_image_file file_opt)")
    case False
    then obtain msg where "validate_image_file file_opt = (False, msg)"
      by (cases "validate_image_file file_opt") auto
    then show ?thesis by (simp add: index_def)
  next
    case True
    then obtain msg where v: "validate_image_file file_opt = (True, msg)"
      by (cases "validate_image_file file_opt") auto
    from True a obtain u where u: "file_opt = Some u"
        "fst (preprocess_image e u) = None \<or>
         (\<exists>x. fst (preprocess_image e u) = Some x \<and> fst (perform_prediction e x) = None)"
      by auto
    obtain r1 l1 where p1: "preprocess_image e u = (r1, l1)"
      by (cases "preprocess_image e u") auto
    show ?thesis
    proof (cases r1)
      case None
      then show ?thesis
        using v u(1) p1 by (simp add: index_def add_log_fields)
    next
      case (Some x)
      then have "fst (perform_prediction e x) = None"
        using u(2) p1 by auto
      then obtain l2 where "perform_prediction e x = (None, l2)"
        by (cases "perform_prediction e x") auto
      then show ?thesis
        using v u(1) p1 Some by (simp add: index_def add_log_fields)
    qed
  qed
next
  assume changed: "table (snd (index e verb file_opt w)) \<noteq> table w"
  show "\<exists>u x results. verb = POST \<and> file_opt = Some u \<and>
         fst (validate_image_file file_opt) = True \<and>
         fst (preprocess_image e u) = Some x \<and>
         fst (perform_prediction e x) = Some results"
    using changed
    by (auto simp: index_def add_log_fields split: http_method.splits prod.splits bool.splits
        option.splits sum.splits)
qed


theorem persistence_failure_is_not_fatal_witness:
  "fst (save_analysis_result_try
      \<lparr>fmul = (*), cv2_imdecode = (\<lambda>b. if b = [] then Inr None else Inr (Some b)),
        resize_and_preprocess = (\<lambda>b. Inr b),
        model_predict = (\<lambda>b. Inr [(''n02099601'', ''golden_retriever'', 1 / 2)]),
        elapsed = 1 / 4, storage_name = name\<rparr>
      \<lparr>name = ''dog.png'', file_size = 3, content = [1, 2, 3]\<rparr>
      [(''n02099601'', ''golden_retriever'', 1 / 2)] (1 / 4)
      \<lparr>labels = FileJSON (PList []), db_up = False, table = [], next_pk = 1, media = [],
        app_log = []\<rparr>) = Inl DatabaseError \<and>
   fst (save_analysis_result
      \<lparr>fmul = (*), cv2_imdecode = (\<lambda>b. if b = [] then Inr None else Inr (Some b)),
        resize_and_preprocess = (\<lambda>b. Inr b),
        model_predict = (\<lambda>b. Inr [(''n02099601'', ''golden_retriever'', 1 / 2)]),
        elapsed = 1 / 4, storage_name = name\<rparr>
      \<lparr>name = ''dog.png'', file_size = 3, content = [1, 2, 3]\<rparr>
      [(''n02099601'', ''golden_retriever'', 1 / 2)] (1 / 4)
      \<lparr>labels = FileJSON (PList []), db_up = False, table = [], next_pk = 1, media = [],
        app_log = []\<rparr>) = None \<and>
   fst (validate_image_file (Some \<lparr>name = ''dog.png'', file_size = 3, content = [1, 2, 3]\<rparr>)) = True \<and>
   fst (preprocess_image
      \<lparr>fmul = (*), cv2_imdecode = (\<lambda>b. if b = [] then Inr None else Inr (Some b)),
        resize_and_preprocess = (\<lambda>b. Inr b),
        model_predict = (\<lambda>b. Inr [(''n02099601'', ''golden_retriever'', 1 / 2)]),
        elapsed = 1 / 4, storage_name = name\<rparr>
      \<lparr>name = ''dog.png'', file_size = 3, content = [1, 2, 3]\<rparr>) = Some [1, 2, 3] \<and>
   fst (perform_prediction
      \<lparr>fmul = (*), cv2_imdecode = (\<lambda>b. if b = [] then Inr None else Inr (Some b)),
        resize_and_preprocess = (\<lambda>b. Inr b),
        model_predict = (\<lambda>b. Inr [(''n02099601'', ''golden_retriever'', 1 / 2)]),
        elapsed = 1 / 4, storage_name = name\<rparr>
      [1, 2, 3]) = Some [(''n02099601'', ''golden_retriever'', 1 / 2)] \<and>
   \<not> db_up
      \<lparr>labels = FileJSON (PList []), db_up = False, table = [], next_pk = 1, media = [],
        app_log = []\<rparr> \<and>
   (\<exists>ps w'.
      map pred_class_id ps = [''n02099601''] \<and>
      index
        \<lparr>fmul = (*), cv2_imdecode = (\<lambda>b. if b = [] then Inr None else Inr (Some b)),
        resize_and_preprocess = (\<lambda>b. Inr b),
        model_predict = (\<lambda>b. Inr [(''n02099601'', ''golden_retriever'', 1 / 2)]),
        elapsed = 1 / 4, storage_name = name\<rparr>
        POST (Some \<lparr>name = ''dog.png'', file_size = 3, content = [1, 2, 3]\<rparr>)
        \<lparr>labels = FileJSON (PList []), db_up = False, table = [], next_pk = 1, media = [],
        app_log = []\<rparr> = (Inr (RenderIndex (Some ps) None, [WarningNotSaved]), w') \<and>
      table w' = [])"
proof -
  have h1: "fst (save_analysis_result_try
      \<lparr>fmul = (*), cv2_imdecode = (\<lambda>b. if b = [] then Inr None else Inr (Some b)),
        resize_and_preprocess = (\<lambda>b. Inr b),
        model_predict = (\<lambda>b. Inr [(''n02099601'', ''golden_retriever'', 1 / 2)]),
        elapsed = 1 / 4, storage_name = name\<rparr>
      \<lparr>name = ''dog.png'', file_size = 3, content = [1, 2, 3]\<rparr>
      [(''n02099601'', ''golden_retriever'', 1 / 2)] (1 / 4)
      \<lparr>labels = FileJSON (PList []), db_up = False, table = [], next_pk = 1, media = [],
        app_log = []\<rparr>) = Inl DatabaseError"
    by (simp add: save_analysis_result_try_def label_or_fallback_def get_japanese_label_def
        get_japanese_label_try_def model_save_def add_log_def)
  have h2: "fst (validate_image_file (Some \<lparr>name = ''dog.png'', file_size = 3, content = [1, 2, 3]\<rparr>)) = True"
    "fst (preprocess_image
      \<lparr>fmul = (*), cv2_imdecode = (\<lambda>b. if b = [] then Inr None else Inr (Some b)),
        resize_and_preprocess = (\<lambda>b. Inr b),
        model_predict = (\<lambda>b. Inr [(''n02099601'', ''golden_retriever'', 1 / 2)]),
        elapsed = 1 / 4, storage_name = name\<rparr>
      \<lparr>name = ''dog.png'', file_size = 3, content = [1, 2, 3]\<rparr>) = Some [1, 2, 3]"
    "fst (perform_prediction
      \<lparr>fmul = (*), cv2_imdecode = (\<lambda>b. if b = [] then Inr None else Inr (Some b)),
        resize_and_preprocess = (\<lambda>b. Inr b),
        model_predict = (\<lambda>b. Inr [(''n02099601'', ''golden_retriever'', 1 / 2)]),
        elapsed = 1 / 4, storage_name = name\<rparr>
      [1, 2, 3]) = Some [(''n02099601'', ''golden_retriever'', 1 / 2)]"
    by (simp_all add: validate_image_file_def file_truthy_def MAX_FILE_SIZE_def extension_def
        py_lower_def lower_char_def ALLOWED_EXTENSIONS_def preprocess_image_def
        perform_prediction_def)
  show ?thesis
    using h1 h2
      persistence_failure_is_not_fatal
        [where e = "\<lparr>fmul = (*), cv2_imdecode = (\<lambda>b. if b = [] then Inr None else Inr (Some b)),
        resize_and_preprocess = (\<lambda>b. Inr b),
        model_predict = (\<lambda>b. Inr [(''n02099601'', ''golden_retriever'', 1 / 2)]),
        elapsed = 1 / 4, storage_name = name\<rparr>"
           and upload = "\<lparr>name = ''dog.png'', file_size = 3, content = [1, 2, 3]\<rparr>"
           and results = "[(''n02099601'', ''golden_retriever'', 1 / 2)]" and t = "1 / 4" and ex = DatabaseError
           and ?w0.0 = "\<lparr>labels = FileJSON (PList []), db_up = False, table = [], next_pk = 1, media = [],
        app_log = []\<rparr>"
           and w = "\<lparr>labels = FileJSON (PList []), db_up = False, table = [], next_pk = 1, media = [],
        app_log = []\<rparr>"
           and x = "[1, 2, 3]"]
    by auto
qed

theorem no_record_without_inference_witness:
  "fst (validate_image_file None) = False \<and>
   (\<exists>m w'. index
      \<lparr>fmul = (*), cv2_imdecode = (\<lambda>b. if b = [] then Inr None else Inr (Some b)),
        resize_and_preprocess = (\<lambda>b. Inr b),
        model_predict = (\<lambda>b. Inr [(''n02099601'', ''golden_retriever'', 1 / 2)]),
        elapsed = 1 / 4, storage_name = name\<rparr>
      POST None
      \<lparr>labels = FileJSON (PList []), db_up = True, table = [], next_pk = 1, media = [],
        app_log = []\<rparr> = (Inr (RenderIndex None None, [m]), w') \<and> table w' = []) \<and>
   fst (preprocess_image
      \<lparr>fmul = (*), cv2_imdecode = (\<lambda>b. if b = [] then Inr None else Inr (Some b)),
        resize_and_preprocess = (\<lambda>b. Inr b),
        model_predict = (\<lambda>b. Inr [(''n02099601'', ''golden_retriever'', 1 / 2)]),
        elapsed = 1 / 4, storage_name = name\<rparr>
      \<lparr>name = ''notes.jpg'', file_size = 0, content = []\<rparr>) = None \<and>
   (\<exists>m w'. index
      \<lparr>fmul = (*), cv2_imdecode = (\<lambda>b. if b = [] then Inr None else Inr (Some b)),
        resize_and_preprocess = (\<lambda>b. Inr b),
        model_predict = (\<lambda>b. Inr [(''n02099601'', ''golden_retriever'', 1 / 2)]),
        elapsed = 1 / 4, storage_name = name\<rparr>
      POST (Some \<lparr>name = ''notes.jpg'', file_size = 0, content = []\<rparr>)
      \<lparr>labels = FileJSON (PList []), db_up = True, table = [], next_pk = 1, media = [],
        app_log = []\<rparr> = (Inr (RenderIndex None None, [m]), w') \<and> table w' = []) \<and>
   table (snd (index
      \<lparr>fmul = (*), cv2_imdecode = (\<lambda>b. if b = [] then Inr None else Inr (Some b)),
        resize_and_preprocess = (\<lambda>b. Inr b),
        model_predict = (\<lambda>b. Inr [(''n02099601'', ''golden_retriever'', 1 / 2)]),
        elapsed = 1 / 4, storage_name = name\<rparr>
      POST (Some \<lparr>name = ''dog.png'', file_size = 3, content = [1, 2, 3]\<rparr>)
      \<lparr>labels = FileJSON (PList []), db_up = True, table = [], next_pk = 1, media = [],
        app_log = []\<rparr>)) \<noteq> [] \<and>
   (\<exists>x results.
      fst (preprocess_image
        \<lparr>fmul = (*), cv2_imdecode = (\<lambda>b. if b = [] then Inr None else Inr (Some b)),
        resize_and_preprocess = (\<lambda>b. Inr b),
        model_predict = (\<lambda>b. Inr [(''n02099601'', ''golden_retriever'', 1 / 2)]),
        elapsed = 1 / 4, storage_name = name\<rparr>
        \<lparr>name = ''dog.png'', file_size = 3, content = [1, 2, 3]\<rparr>) = Some x \<and>
      fst (perform_prediction
        \<lparr>fmul = (*), cv2_imdecode = (\<lambda>b. if b = [] then Inr None else Inr (Some b)),
        resize_and_preprocess = (\<lambda>b. Inr b),
        model_predict = (\<lambda>b. Inr [(''n02099601'', ''golden_retriever'', 1 / 2)]),
        elapsed = 1 / 4, storage_name = name\<rparr>
        x) = Some results)"
proof -
  let ?e = "\<lparr>fmul = (*), cv2_imdecode = (\<lambda>b. if b = [] then Inr None else Inr (Some b)),
        resize_and_preprocess = (\<lambda>b. Inr b),
        model_predict = (\<lambda>b. Inr [(''n02099601'', ''golden_retriever'', 1 / 2)]),
        elapsed = 1 / 4, storage_name = name\<rparr>"
  let ?w = "\<lparr>labels = FileJSON (PList []), db_up = True, table = [], next_pk = 1, media = [],
        app_log = []\<rparr>"
  let ?u = "\<lparr>name = ''dog.png'', file_size = 3, content = [1, 2, 3]\<rparr>"
  let ?t = "\<lparr>name = ''notes.jpg'', file_size = 0, content = []\<rparr>"
  have v0: "fst (validate_image_file None) = False"
    by (simp add: validate_image_file_def)
  have p1: "fst (preprocess_image ?e ?t) = None"
    by (simp add: preprocess_image_def)
  have run: "table (snd (index ?e POST (Some ?u) ?w)) \<noteq> table ?w"
    by (simp add: index_def validate_image_file_def file_truthy_def MAX_FILE_SIZE_def extension_def
        py_lower_def lower_char_def ALLOWED_EXTENSIONS_def preprocess_image_def
        perform_prediction_def
        format_predictions_def label_or_fallback_def get_japanese_label_def
        get_japanese_label_try_def py_or_def save_analysis_result_def
        save_analysis_result_try_def model_save_def add_log_def Let_def)
  have c1: "\<exists>m w'. index ?e POST None ?w = (Inr (RenderIndex None None, [m]), w') \<and>
      table w' = []"
    using no_record_without_inference
        [where e = ?e and file_opt = None and w = ?w, THEN conjunct1] v0
    by auto
  have c2: "\<exists>m w'. index ?e POST (Some ?t) ?w = (Inr (RenderIndex None None, [m]), w') \<and>
      table w' = []"
  proof -
    have "\<exists>u. Some ?t = Some u \<and>
       (fst (preprocess_image ?e u) = None \<or>
        (\<exists>x. fst (preprocess_image ?e u) = Some x \<and> fst (perform_prediction ?e x) = None))"
      using p1 by blast
    then have "\<exists>m w'. index ?e POST (Some ?t) ?w = (Inr (RenderIndex None None, [m]), w') \<and>
         (m = ErrorValidation (snd (validate_image_file (Some ?t))) \<or> m = ErrorImageLoad \<or>
          m = ErrorAnalysis) \<and>
         table w' = table ?w \<and> media w' = media ?w \<and> next_pk w' = next_pk ?w"
      using no_record_without_inference
        [where e = ?e and file_opt = "Some ?t" and w = ?w, THEN conjunct1]
      by blast
    then show ?thesis by auto
  qed
  have c3: "\<exists>x results.
      fst (preprocess_image ?e ?u) = Some x \<and> fst (perform_prediction ?e x) = Some results"
    using no_record_without_inference
        [where e = ?e and file_opt = "Some ?u" and verb = POST and w = ?w, THEN conjunct2]
      run
    by blast
  have run': "table (snd (index ?e POST (Some ?u) ?w)) \<noteq> []"
    using run by simp
  show ?thesis
    using v0 c1 p1 c2 run' c3 by blast
qed

section \<open>The history request\<close>

lemma num_pages_10:
  "num_pages xs 10 = (if xs = [] then 1 else (length xs + 9) div 10)"
  by (cases xs) (simp_all add: num_pages_def)

lemma num_pages_pos: "1 \<le> num_pages xs 10"
proof (cases xs)
  case Nil
  then show ?thesis by (simp add: num_pages_10)
next
  case (Cons x rest)
  then have "10 \<le> length xs + 9" by simp
  then have "10 div 10 \<le> (length xs + 9) div 10" by (rule div_le_mono)
  then show ?thesis using Cons by (simp add: num_pages_10)
qed

lemma num_pages_covers: "length xs \<le> num_pages xs 10 * 10"
  by (simp add: num_pages_10) arith

lemma paginator_page_valid:
  assumes "1 \<le> n" "n \<le> int (num_pages xs 10)"
  shows "paginator_page xs 10 (IntLike n) = Inr (take 10 (drop ((nat n - 1) * 10) xs), nat n)"
proof -
  have v: "validate_number xs 10 (IntLike n) = Inr (nat n)"
    using assms by (simp add: validate_number_def)
  show ?thesis
    unfolding paginator_page_def v by (simp add: Let_def)
qed

lemma paginator_page_empty:
  "n < 1 \<or> int (num_pages xs 10) < n \<Longrightarrow> paginator_page xs 10 (IntLike n) = Inl EmptyPage"
  by (auto simp: paginator_page_def validate_number_def)

lemma last_page:
  "paginator_page xs 10 (IntLike (int (num_pages xs 10))) =
     Inr (drop ((num_pages xs 10 - 1) * 10) xs, num_pages xs 10)"
proof -
  have "length (drop ((num_pages xs 10 - 1) * 10) xs) \<le> 10"
    using num_pages_covers [of xs] num_pages_pos [of xs]
    by (simp add: algebra_simps)
  then have "take 10 (drop ((num_pages xs 10 - 1) * 10) xs) = drop ((num_pages xs 10 - 1) * 10) xs"
    by simp
  then show ?thesis
    using paginator_page_valid [of "int (num_pages xs 10)" xs] num_pages_pos [of xs]
    by simp
qed

lemma first_page: "paginator_page xs 10 (IntLike 1) = Inr (take 10 xs, 1)"
  using paginator_page_valid [of 1 xs] num_pages_pos [of xs] by simp

text \<open>
  C1, as the code has it. The page size is 10. A page number below 1 or above the number
  of pages raises \<open>EmptyPage\<close> in the paginator, and the view answers both with the
  last page; a page number within range selects its own page; a page parameter that is
  not an integer is answered with page 1. Every request returns a page, of at most 10
  records.
\<close>

theorem view_data_page_selection:
  "ITEMS_PER_PAGE = 10 \<and>
   (n < 1 \<or> int (num_pages xs ITEMS_PER_PAGE) < n \<longrightarrow>
      view_data xs (IntLike n) =
        Inr (drop ((num_pages xs ITEMS_PER_PAGE - 1) * 10) xs, num_pages xs ITEMS_PER_PAGE)) \<and>
   (1 \<le> n \<and> n \<le> int (num_pages xs ITEMS_PER_PAGE) \<longrightarrow>
      view_data xs (IntLike n) = Inr (take 10 (drop ((nat n - 1) * 10) xs), nat n)) \<and>
   view_data xs NotIntLike = Inr (take 10 xs, 1) \<and>
   (\<exists>p. view_data xs arg = Inr p \<and> length (fst p) \<le> 10)"
proof -
  have sel1: "n < 1 \<or> int (num_pages xs 10) < n \<Longrightarrow>
      view_data xs (IntLike n) = Inr (drop ((num_pages xs 10 - 1) * 10) xs, num_pages xs 10)"
    using paginator_page_empty [of n xs] last_page [of xs]
    by (simp add: view_data_def ITEMS_PER_PAGE_def)
  have sel2: "1 \<le> n \<and> n \<le> int (num_pages xs 10) \<Longrightarrow>
      view_data xs (IntLike n) = Inr (take 10 (drop ((nat n - 1) * 10) xs), nat n)"
    using paginator_page_valid [of n xs]
    by (simp add: view_data_def ITEMS_PER_PAGE_def)
  have sel3: "view_data xs NotIntLike = Inr (take 10 xs, 1)"
    using first_page [of xs]
    by (simp add: view_data_def ITEMS_PER_PAGE_def paginator_page_def validate_number_def)
  have len_last: "length (drop ((num_pages xs 10 - 1) * 10) xs) \<le> 10"
    using num_pages_covers [of xs] num_pages_pos [of xs]
    by (simp add: algebra_simps)
  have any: "\<exists>p. view_data xs arg = Inr p \<and> length (fst p) \<le> 10"
  proof (cases arg)
    case NotIntLike
    then show ?thesis using sel3 by simp
  next
    case (IntLike m)
    have m1: "m < 1 \<or> int (num_pages xs 10) < m \<Longrightarrow>
      view_data xs (IntLike m) = Inr (drop ((num_pages xs 10 - 1) * 10) xs, num_pages xs 10)"
      using paginator_page_empty [of m xs] last_page [of xs]
      by (simp add: view_data_def ITEMS_PER_PAGE_def)
    have m2: "1 \<le> m \<and> m \<le> int (num_pages xs 10) \<Longrightarrow>
      view_data xs (IntLike m) = Inr (take 10 (drop ((nat m - 1) * 10) xs), nat m)"
      using paginator_page_valid [of m xs]
      by (simp add: view_data_def ITEMS_PER_PAGE_def)
    show ?thesis
    proof (cases "m < 1 \<or> int (num_pages xs 10) < m")
      case True
      then show ?thesis using m1 len_last IntLike by simp
    next
      case False
      then have "1 \<le> m \<and> m \<le> int (num_pages xs 10)" by auto
      then show ?thesis using m2 IntLike by simp
    qed
  qed
  show ?thesis
    using sel1 sel2 sel3 any by (simp add: ITEMS_PER_PAGE_def)
qed


theorem view_data_page_selection_witness:
  "(0::int) < 1 \<and>
   view_data [1, 2, 3, 4, 5, 6, 7, 8, 9, 10, 11 :: nat] (IntLike 0) = Inr ([11], 2) \<and>
   int (num_pages [1, 2, 3, 4, 5, 6, 7, 8, 9, 10, 11 :: nat] ITEMS_PER_PAGE) < 7 \<and>
   view_data [1, 2, 3, 4, 5, 6, 7, 8, 9, 10, 11 :: nat] (IntLike 7) = Inr ([11], 2) \<and>
   (1::int) \<le> 2 \<and> 2 \<le> int (num_pages [1, 2, 3, 4, 5, 6, 7, 8, 9, 10, 11 :: nat] ITEMS_PER_PAGE) \<and>
   view_data [1, 2, 3, 4, 5, 6, 7, 8, 9, 10, 11 :: nat] (IntLike 2) = Inr ([11], 2) \<and>
   view_data [1, 2, 3, 4, 5, 6, 7, 8, 9, 10, 11 :: nat] NotIntLike = Inr ([1, 2, 3, 4, 5, 6, 7, 8, 9, 10], 1)"
proof -
  have np: "num_pages [1, 2, 3, 4, 5, 6, 7, 8, 9, 10, 11 :: nat] ITEMS_PER_PAGE = 2"
    by (simp add: num_pages_def ITEMS_PER_PAGE_def)
  show ?thesis
    using np
      view_data_page_selection [of 0 "[1, 2, 3, 4, 5, 6, 7, 8, 9, 10, 11 :: nat]" NotIntLike, THEN conjunct2]
      view_data_page_selection [of 7 "[1, 2, 3, 4, 5, 6, 7, 8, 9, 10, 11 :: nat]" NotIntLike, THEN conjunct2]
      view_data_page_selection [of 2 "[1, 2, 3, 4, 5, 6, 7, 8, 9, 10, 11 :: nat]" NotIntLike, THEN conjunct2]
    by simp
qed

text \<open>
  The claim as stated fails: with 11 records, page 0 and page -1 give the last page
  (page 2, holding the eleventh record), not the first page.
\<close>

theorem view_data_page_zero_is_last_page:
  "view_data [1, 2, 3, 4, 5, 6, 7, 8, 9, 10, 11 :: nat] (IntLike 0) = Inr ([11], 2) \<and>
   view_data [1, 2, 3, 4, 5, 6, 7, 8, 9, 10, 11 :: nat] (IntLike (- 1)) = Inr ([11], 2) \<and>
   view_data [1, 2, 3, 4, 5, 6, 7, 8, 9, 10, 11 :: nat] (IntLike 1) = Inr ([1, 2, 3, 4, 5, 6, 7, 8, 9, 10], 1) \<and>
   view_data [1, 2, 3, 4, 5, 6, 7, 8, 9, 10, 11 :: nat] (IntLike 0) \<noteq> view_data [1, 2, 3, 4, 5, 6, 7, 8, 9, 10, 11 :: nat] (IntLike 1)"
  by (simp add: view_data_def paginator_page_def validate_number_def num_pages_def
      ITEMS_PER_PAGE_def)

section \<open>The delete request\<close>

lemma find_pk: "find (\<lambda>r. pk r = Some k) rows = Some row \<Longrightarrow> pk row = Some k \<and> row \<in> set rows"
  by (auto simp: find_Some_iff)

text \<open>
  C3, as the code has it. With the database up: deleting an id that no row carries
  raises \<open>Http404\<close> and changes nothing. Deleting an existing row whose image is a
  removable regular file removes the file and then the row; when the image field is
  empty or its path is not a regular file, the row alone is removed; both end with the
  success message. When \<open>os.remove\<close> fails on the image, the exception leaves
  \<open>AnalysisResult.delete\<close> before the row is deleted: the view logs the error, reports
  that the deletion failed, and the row stays in the table.
\<close>

theorem delete_data_outcomes:
  "(db_up w \<and> find (\<lambda>r. pk r = Some k) (table w) = None \<longrightarrow>
      delete_data POST k w = (Inl Http404, w)) \<and>
   (db_up w \<and> find (\<lambda>r. pk r = Some k) (table w) = Some row \<longrightarrow>
      (image_name row \<noteq> [] \<and> map_of (media w) (image_name row) = Some (RegularFile True) \<longrightarrow>
         delete_data POST k w =
           (Inr (RedirectViewData, [SuccessDeleted k]),
            add_log [InfoDeleted k]
              (w\<lparr>media := filter (\<lambda>kv. fst kv \<noteq> image_name row) (media w),
                 table := filter (\<lambda>r. pk r \<noteq> Some k) (table w)\<rparr>))) \<and>
      (image_name row = [] \<or> \<not> os_path_isfile w (image_name row) \<longrightarrow>
         delete_data POST k w =
           (Inr (RedirectViewData, [SuccessDeleted k]),
            add_log [InfoDeleted k] (w\<lparr>table := filter (\<lambda>r. pk r \<noteq> Some k) (table w)\<rparr>))) \<and>
      (image_name row \<noteq> [] \<and> map_of (media w) (image_name row) = Some (RegularFile False) \<longrightarrow>
         delete_data POST k w =
           (Inr (RedirectViewData, [ErrorDeleteFailed]), add_log [ErrDelete OSError] w) \<and>
         row \<in> set (table (snd (delete_data POST k w)))))"
proof (intro conjI impI)
  assume "db_up w \<and> find (\<lambda>r. pk r = Some k) (table w) = None"
  then show "delete_data POST k w = (Inl Http404, w)"
    by (simp add: delete_data_def get_object_or_404_def)
next
  assume a: "db_up w \<and> find (\<lambda>r. pk r = Some k) (table w) = Some row"
    and b: "image_name row \<noteq> [] \<and> map_of (media w) (image_name row) = Some (RegularFile True)"
  have k: "pk row = Some k" using a find_pk by blast
  show "delete_data POST k w =
           (Inr (RedirectViewData, [SuccessDeleted k]),
            add_log [InfoDeleted k]
              (w\<lparr>media := filter (\<lambda>kv. fst kv \<noteq> image_name row) (media w),
                 table := filter (\<lambda>r. pk r \<noteq> Some k) (table w)\<rparr>))"
    using a b k
    by (simp add: delete_data_def get_object_or_404_def AnalysisResult_delete_def
        os_path_isfile_def os_remove_def model_delete_def)
next
  assume a: "db_up w \<and> find (\<lambda>r. pk r = Some k) (table w) = Some row"
    and b: "image_name row = [] \<or> \<not> os_path_isfile w (image_name row)"
  have k: "pk row = Some k" using a find_pk by blast
  show "delete_data POST k w =
           (Inr (RedirectViewData, [SuccessDeleted k]),
            add_log [InfoDeleted k] (w\<lparr>table := filter (\<lambda>r. pk r \<noteq> Some k) (table w)\<rparr>))"
    using a b k
    by (auto simp: delete_data_def get_object_or_404_def AnalysisResult_delete_def
        model_delete_def)
next
  assume a: "db_up w \<and> find (\<lambda>r. pk r = Some k) (table w) = Some row"
    and b: "image_name row \<noteq> [] \<and> map_of (media w) (image_name row) = Some (RegularFile False)"
  show r: "delete_data POST k w =
           (Inr (RedirectViewData, [ErrorDeleteFailed]), add_log [ErrDelete OSError] w)"
    using a b
    by (simp add: delete_data_def get_object_or_404_def AnalysisResult_delete_def
        os_path_isfile_def os_remove_def)
  have "row \<in> set (table w)" using a find_pk by blast
  then show "row \<in> set (table (snd (delete_data POST k w)))"
    unfolding r by (simp add: add_log_def)
qed


theorem delete_data_outcomes_witness:
  "db_up
      \<lparr>labels = FileMissing, db_up = True,
        table = [\<lparr>pk = Some 1, image_name = ''uploads/dog.png'', original_filename = ''dog.png'',
                  prediction_label = PStr ''inu'', prediction_score = 50,
                  processing_time = 1 / 4, model_version = ''EfficientNetB0-v1.0''\<rparr>],
        next_pk = 2, media = [(''uploads/dog.png'', RegularFile True)], app_log = []\<rparr> \<and>
   find (\<lambda>r. pk r = Some 7)
     (table
      \<lparr>labels = FileMissing, db_up = True,
        table = [\<lparr>pk = Some 1, image_name = ''uploads/dog.png'', original_filename = ''dog.png'',
                  prediction_label = PStr ''inu'', prediction_score = 50,
                  processing_time = 1 / 4, model_version = ''EfficientNetB0-v1.0''\<rparr>],
        next_pk = 2, media = [(''uploads/dog.png'', RegularFile True)], app_log = []\<rparr>) = None \<and>
   delete_data POST 7
      \<lparr>labels = FileMissing, db_up = True,
        table = [\<lparr>pk = Some 1, image_name = ''uploads/dog.png'', original_filename = ''dog.png'',
                  prediction_label = PStr ''inu'', prediction_score = 50,
                  processing_time = 1 / 4, model_version = ''EfficientNetB0-v1.0''\<rparr>],
        next_pk = 2, media = [(''uploads/dog.png'', RegularFile True)], app_log = []\<rparr> =
     (Inl Http404,
      \<lparr>labels = FileMissing, db_up = True,
        table = [\<lparr>pk = Some 1, image_name = ''uploads/dog.png'', original_filename = ''dog.png'',
                  prediction_label = PStr ''inu'', prediction_score = 50,
                  processing_time = 1 / 4, model_version = ''EfficientNetB0-v1.0''\<rparr>],
        next_pk = 2, media = [(''uploads/dog.png'', RegularFile True)], app_log = []\<rparr>) \<and>
   find (\<lambda>r. pk r = Some 1)
     (table
      \<lparr>labels = FileMissing, db_up = True,
        table = [\<lparr>pk = Some 1, image_name = ''uploads/dog.png'', original_filename = ''dog.png'',
                  prediction_label = PStr ''inu'', prediction_score = 50,
                  processing_time = 1 / 4, model_version = ''EfficientNetB0-v1.0''\<rparr>],
        next_pk = 2, media = [(''uploads/dog.png'', RegularFile True)], app_log = []\<rparr>) =
     Some \<lparr>pk = Some 1, image_name = ''uploads/dog.png'', original_filename = ''dog.png'',
                  prediction_label = PStr ''inu'', prediction_score = 50,
                  processing_time = 1 / 4, model_version = ''EfficientNetB0-v1.0''\<rparr> \<and>
   table (snd (delete_data POST 1
      \<lparr>labels = FileMissing, db_up = True,
        table = [\<lparr>pk = Some 1, image_name = ''uploads/dog.png'', original_filename = ''dog.png'',
                  prediction_label = PStr ''inu'', prediction_score = 50,
                  processing_time = 1 / 4, model_version = ''EfficientNetB0-v1.0''\<rparr>],
        next_pk = 2, media = [(''uploads/dog.png'', RegularFile True)], app_log = []\<rparr>)) = [] \<and>
   media (snd (delete_data POST 1
      \<lparr>labels = FileMissing, db_up = True,
        table = [\<lparr>pk = Some 1, image_name = ''uploads/dog.png'', original_filename = ''dog.png'',
                  prediction_label = PStr ''inu'', prediction_score = 50,
                  processing_time = 1 / 4, model_version = ''EfficientNetB0-v1.0''\<rparr>],
        next_pk = 2, media = [(''uploads/dog.png'', RegularFile True)], app_log = []\<rparr>)) = [] \<and>
   \<not> os_path_isfile
      \<lparr>labels = FileMissing, db_up = True,
        table = [\<lparr>pk = Some 1, image_name = ''uploads/dog.png'', original_filename = ''dog.png'',
                  prediction_label = PStr ''inu'', prediction_score = 50,
                  processing_time = 1 / 4, model_version = ''EfficientNetB0-v1.0''\<rparr>],
        next_pk = 2, media = [], app_log = []\<rparr> ''uploads/dog.png'' \<and>
   table (snd (delete_data POST 1
      \<lparr>labels = FileMissing, db_up = True,
        table = [\<lparr>pk = Some 1, image_name = ''uploads/dog.png'', original_filename = ''dog.png'',
                  prediction_label = PStr ''inu'', prediction_score = 50,
                  processing_time = 1 / 4, model_version = ''EfficientNetB0-v1.0''\<rparr>],
        next_pk = 2, media = [], app_log = []\<rparr>)) = [] \<and>
   map_of (media
      \<lparr>labels = FileMissing, db_up = True,
        table = [\<lparr>pk = Some 1, image_name = ''uploads/dog.png'', original_filename = ''dog.png'',
                  prediction_label = PStr ''inu'', prediction_score = 50,
                  processing_time = 1 / 4, model_version = ''EfficientNetB0-v1.0''\<rparr>],
        next_pk = 2, media = [(''uploads/dog.png'', RegularFile False)], app_log = []\<rparr>) ''uploads/dog.png'' = Some (RegularFile False) \<and>
   delete_data POST 1
      \<lparr>labels = FileMissing, db_up = True,
        table = [\<lparr>pk = Some 1, image_name = ''uploads/dog.png'', original_filename = ''dog.png'',
                  prediction_label = PStr ''inu'', prediction_score = 50,
                  processing_time = 1 / 4, model_version = ''EfficientNetB0-v1.0''\<rparr>],
        next_pk = 2, media = [(''uploads/dog.png'', RegularFile False)], app_log = []\<rparr> =
     (Inr (RedirectViewData, [ErrorDeleteFailed]),
      add_log [ErrDelete OSError]
      \<lparr>labels = FileMissing, db_up = True,
        table = [\<lparr>pk = Some 1, image_name = ''uploads/dog.png'', original_filename = ''dog.png'',
                  prediction_label = PStr ''inu'', prediction_score = 50,
                  processing_time = 1 / 4, model_version = ''EfficientNetB0-v1.0''\<rparr>],
        next_pk = 2, media = [(''uploads/dog.png'', RegularFile False)], app_log = []\<rparr>)"
proof -
  let ?row = "\<lparr>pk = Some 1, image_name = ''uploads/dog.png'', original_filename = ''dog.png'',
                  prediction_label = PStr ''inu'', prediction_score = 50,
                  processing_time = 1 / 4, model_version = ''EfficientNetB0-v1.0''\<rparr>"
  let ?wt = "\<lparr>labels = FileMissing, db_up = True,
        table = [\<lparr>pk = Some 1, image_name = ''uploads/dog.png'', original_filename = ''dog.png'',
                  prediction_label = PStr ''inu'', prediction_score = 50,
                  processing_time = 1 / 4, model_version = ''EfficientNetB0-v1.0''\<rparr>],
        next_pk = 2, media = [(''uploads/dog.png'', RegularFile True)], app_log = []\<rparr>"
  let ?we = "\<lparr>labels = FileMissing, db_up = True,
        table = [\<lparr>pk = Some 1, image_name = ''uploads/dog.png'', original_filename = ''dog.png'',
                  prediction_label = PStr ''inu'', prediction_score = 50,
                  processing_time = 1 / 4, model_version = ''EfficientNetB0-v1.0''\<rparr>],
        next_pk = 2, media = [], app_log = []\<rparr>"
  let ?wf = "\<lparr>labels = FileMissing, db_up = True,
        table = [\<lparr>pk = Some 1, image_name = ''uploads/dog.png'', original_filename = ''dog.png'',
                  prediction_label = PStr ''inu'', prediction_score = 50,
                  processing_time = 1 / 4, model_version = ''EfficientNetB0-v1.0''\<rparr>],
        next_pk = 2, media = [(''uploads/dog.png'', RegularFile False)], app_log = []\<rparr>"
  have nf: "os_path_isfile ?we ''uploads/dog.png'' = False"
    by (simp add: os_path_isfile_def)
  show ?thesis
    using nf
      delete_data_outcomes [where w = ?wt and k = 7 and row = ?row, THEN conjunct1]
      delete_data_outcomes [where w = ?wt and k = 1 and row = ?row, THEN conjunct2]
      delete_data_outcomes [where w = ?we and k = 1 and row = ?row, THEN conjunct2]
      delete_data_outcomes [where w = ?wf and k = 1 and row = ?row, THEN conjunct2]
    by (simp add: add_log_def)
qed

text \<open>
  The claim as stated fails: with an image file that cannot be removed, the row is
  still in the table after the delete request.
\<close>

theorem blob_failure_keeps_row:
  "delete_data POST 1
      \<lparr>labels = FileMissing, db_up = True,
        table = [\<lparr>pk = Some 1, image_name = ''uploads/dog.png'', original_filename = ''dog.png'',
                  prediction_label = PStr ''inu'', prediction_score = 50,
                  processing_time = 1 / 4, model_version = ''EfficientNetB0-v1.0''\<rparr>],
        next_pk = 2, media = [(''uploads/dog.png'', RegularFile False)], app_log = []\<rparr> =
     (Inr (RedirectViewData, [ErrorDeleteFailed]),
      \<lparr>labels = FileMissing, db_up = True,
        table = [\<lparr>pk = Some 1, image_name = ''uploads/dog.png'', original_filename = ''dog.png'',
                  prediction_label = PStr ''inu'', prediction_score = 50,
                  processing_time = 1 / 4, model_version = ''EfficientNetB0-v1.0''\<rparr>],
        next_pk = 2, media = [(''uploads/dog.png'', RegularFile False)], app_log = [ErrDelete OSError]\<rparr>) \<and>
   table (snd (delete_data POST 1
      \<lparr>labels = FileMissing, db_up = True,
        table = [\<lparr>pk = Some 1, image_name = ''uploads/dog.png'', original_filename = ''dog.png'',
                  prediction_label = PStr ''inu'', prediction_score = 50,
                  processing_time = 1 / 4, model_version = ''EfficientNetB0-v1.0''\<rparr>],
        next_pk = 2, media = [(''uploads/dog.png'', RegularFile False)], app_log = []\<rparr>)) =
     [\<lparr>pk = Some 1, image_name = ''uploads/dog.png'', original_filename = ''dog.png'',
                  prediction_label = PStr ''inu'', prediction_score = 50,
                  processing_time = 1 / 4, model_version = ''EfficientNetB0-v1.0''\<rparr>]"
  by (simp add: delete_data_def get_object_or_404_def AnalysisResult_delete_def
      os_path_isfile_def os_remove_def add_log_def)

end
